theory Spec2Isabelle
  imports Complex_Main "HOL-Library.Char_ord" "HOL-Library.List_Lexorder" "HOL-Library.AList"
    "HOL-Library.Log_Nat" "HOL-Library.Monad_Syntax" "HOL-Library.Sublist"
begin

section \<open>Python values, strings and dictionaries\<close>

text \<open>
  Strings are \<open>char list\<close>; with \<open>Char_ord\<close> and \<open>List_Lexorder\<close> the order on strings is
  the lexicographic order by character code, which is the order Python's \<open>sorted\<close> uses on
  \<open>str\<close> keys. A Python \<open>dict\<close> is an association list in insertion order with distinct
  keys: \<open>d[k] = v\<close> is \<open>AList.update k v d\<close> (an existing key keeps its position, a new one
  is appended), \<open>d.get(k)\<close> is \<open>map_of d k\<close>.
\<close>

datatype pyval = VNone | VStr string | VInt int

text \<open>Truthiness, as in \<open>if a[1]\<close>: \<open>None\<close>, the empty string and \<open>0\<close> are falsy.\<close>

fun truthy :: "pyval \<Rightarrow> bool" where
  "truthy VNone = False"
| "truthy (VStr s) = (s \<noteq> [])"
| "truthy (VInt n) = (n \<noteq> 0)"

definition digit_char :: "nat \<Rightarrow> char" where
  "digit_char n = ''0123456789'' ! n"

function str_nat :: "nat \<Rightarrow> string" where
  "str_nat n = (if n < 10 then [digit_char n] else str_nat (n div 10) @ [digit_char (n mod 10)])"
  by pat_completeness auto
termination
  by (relation "measure id") auto

definition str_int :: "int \<Rightarrow> string" where
  "str_int i = (if i < 0 then CHR ''-'' # str_nat (nat (- i)) else str_nat (nat i))"

text \<open>\<open>str(v)\<close>, as the \<open>%s\<close> conversion applies it.\<close>

fun py_str :: "pyval \<Rightarrow> string" where
  "py_str VNone = ''None''"
| "py_str (VStr s) = s"
| "py_str (VInt n) = str_int n"

text \<open>\<open>sep.join(xs)\<close>\<close>

fun str_join :: "string \<Rightarrow> string list \<Rightarrow> string" where
  "str_join sep [] = []"
| "str_join sep [x] = x"
| "str_join sep (x # y # ys) = x @ sep @ str_join sep (y # ys)"

type_synonym attrs = "(string \<times> pyval) list"
type_synonym styles = "(string \<times> string option) list"

text \<open>\<open>d.update(other)\<close>: the items of \<open>other\<close> are stored in their order.\<close>

definition dict_update :: "('k \<times> 'v) list \<Rightarrow> ('k \<times> 'v) list \<Rightarrow> ('k \<times> 'v) list" where
  "dict_update d other = foldl (\<lambda>acc kv. AList.update (fst kv) (snd kv) acc) d other"

section \<open>Attribute and inline style serialisation (core.py)\<close>

text \<open>\<open>'%s="%s"' % a\<close>\<close>

definition fmt_attr :: "string \<times> pyval \<Rightarrow> string" where
  "fmt_attr a = fst a @ [CHR ''='', CHR 0x22] @ py_str (snd a) @ [CHR 0x22]"

text \<open>
  \<open>render_attrs\<close>: \<open>not attrs\<close> holds for \<open>None\<close> and for the empty dict alike, so a missing
  dict is passed as \<open>[]\<close>. \<open>sorted(..., key=lambda a: a[0])\<close> is a stable sort on the key.
\<close>

definition render_attrs :: "attrs \<Rightarrow> string" where
  "render_attrs attrs =
     (if attrs = [] then ''''
      else str_join '' '' (map fmt_attr (filter (\<lambda>a. truthy (snd a)) (sort_key fst attrs))))"

text \<open>\<open>"%s: %s" % a\<close>; the value is never \<open>None\<close> when this is applied.\<close>

definition fmt_style :: "string \<times> string option \<Rightarrow> string" where
  "fmt_style a = fst a @ '': '' @ (case snd a of None \<Rightarrow> ''None'' | Some v \<Rightarrow> v)"

definition render_inline_styles :: "styles \<Rightarrow> string" where
  "render_inline_styles styles =
     (if styles = [] then ''''
      else str_join '';'' (map fmt_style (filter (\<lambda>a. snd a \<noteq> None) (sort_key fst styles))))"

section \<open>Python floats (IEEE 754 binary64)\<close>

text \<open>
  A finite double is the (rational) real number it denotes. Every arithmetic operation of the source is the
  exact operation followed by rounding to the nearest double, ties to even (\<open>fl\<close>): 53
  significant bits, exponents down to the subnormal step \<open>2 ^ -1074\<close>, overflow to an infinity
  when the rounded value \<open>y\<close> reaches \<open>2 ^ 1024\<close>, that is \<open>1024 \<le> \<lfloor>log\<^sub>2 \<bar>y\<bar>\<rfloor>\<close>
  (\<open>fl_at x e\<close> rounds \<open>x\<close> to a multiple of \<open>2 ^ e\<close>, \<open>fl_pack\<close> checks the range). The sign of a zero is not kept: no operation of the modelled code
  observes it. \<open>round(x)\<close> of a float rounds half to even and raises on an infinity or a NaN.
  Where the code runs inside \<open>try ... except Exception\<close>, a raised exception is the value
  \<open>None\<close>.
\<close>

datatype pyfloat = Fin real | PInf | NInf | NaN

definition rhe :: "real \<Rightarrow> int" where
  "rhe x = (let f = \<lfloor>x\<rfloor>; d = x - of_int f in
     if d < 1 / 2 then f else if 1 / 2 < d then f + 1 else if even f then f else f + 1)"

text \<open>\<open>ilog2 x\<close> is \<open>\<lfloor>log\<^sub>2 x\<rfloor>\<close> for \<open>0 < x\<close>.\<close>

definition ilog2 :: "real \<Rightarrow> int" where
  "ilog2 x = (if 1 \<le> x then bitlen \<lfloor>x\<rfloor> - 1 else - bitlen (\<lceil>1 / x\<rceil> - 1))"

definition fl_pack :: "bool \<Rightarrow> real \<Rightarrow> pyfloat" where
  "fl_pack pos y = (if 1024 \<le> ilog2 \<bar>y\<bar> then (if pos then PInf else NInf) else Fin y)"

definition fl_at :: "real \<Rightarrow> int \<Rightarrow> pyfloat" where
  "fl_at x e = fl_pack (0 < x) (of_int (rhe (x / power_int 2 e)) * power_int 2 e)"

definition fl :: "real \<Rightarrow> pyfloat" where
  "fl x = (if x = 0 then Fin 0 else fl_at x (max (ilog2 \<bar>x\<bar> - 52) (- 1074)))"

fun fneg :: "pyfloat \<Rightarrow> pyfloat" where
  "fneg (Fin a) = Fin (- a)"
| "fneg PInf = NInf"
| "fneg NInf = PInf"
| "fneg NaN = NaN"

fun fadd :: "pyfloat \<Rightarrow> pyfloat \<Rightarrow> pyfloat" where
  "fadd NaN _ = NaN"
| "fadd _ NaN = NaN"
| "fadd (Fin a) (Fin b) = fl (a + b)"
| "fadd PInf NInf = NaN"
| "fadd NInf PInf = NaN"
| "fadd PInf _ = PInf"
| "fadd NInf _ = NInf"
| "fadd (Fin a) PInf = PInf"
| "fadd (Fin a) NInf = NInf"

definition fsub :: "pyfloat \<Rightarrow> pyfloat \<Rightarrow> pyfloat" where
  "fsub a b = fadd a (fneg b)"

text \<open>The sign of a float: \<open>-1\<close>, \<open>0\<close> or \<open>1\<close> (\<open>0\<close> for a NaN, which callers exclude).\<close>

fun fsgn :: "pyfloat \<Rightarrow> int" where
  "fsgn (Fin a) = (if a < 0 then - 1 else if a = 0 then 0 else 1)"
| "fsgn PInf = 1"
| "fsgn NInf = - 1"
| "fsgn NaN = 0"

definition inf_of_sign :: "int \<Rightarrow> pyfloat" where
  "inf_of_sign s = (if s = 0 then NaN else if 0 < s then PInf else NInf)"

text \<open>An infinity times zero is a NaN.\<close>

fun fmul :: "pyfloat \<Rightarrow> pyfloat \<Rightarrow> pyfloat" where
  "fmul NaN _ = NaN"
| "fmul _ NaN = NaN"
| "fmul (Fin a) (Fin b) = fl (a * b)"
| "fmul a b = inf_of_sign (fsgn a * fsgn b)"

text \<open>\<open>a / b\<close> on floats raises \<open>ZeroDivisionError\<close> when \<open>b\<close> is zero, whatever \<open>a\<close> is.\<close>

fun fdiv :: "pyfloat \<Rightarrow> pyfloat \<Rightarrow> pyfloat option" where
  "fdiv NaN (Fin b) = (if b = 0 then None else Some NaN)"
| "fdiv NaN _ = Some NaN"
| "fdiv (Fin a) (Fin b) = (if b = 0 then None else Some (fl (a / b)))"
| "fdiv (Fin a) NaN = Some NaN"
| "fdiv (Fin a) _ = Some (Fin 0)"
| "fdiv a (Fin b) = (if b = 0 then None else Some (inf_of_sign (fsgn a * fsgn (Fin b))))"
| "fdiv _ _ = Some NaN"

text \<open>Comparisons; every comparison with a NaN is false.\<close>

fun flt :: "pyfloat \<Rightarrow> pyfloat \<Rightarrow> bool" where
  "flt NaN _ = False"
| "flt _ NaN = False"
| "flt (Fin a) (Fin b) = (a < b)"
| "flt PInf _ = False"
| "flt _ NInf = False"
| "flt _ _ = True"

fun feq :: "pyfloat \<Rightarrow> pyfloat \<Rightarrow> bool" where
  "feq (Fin a) (Fin b) = (a = b)"
| "feq PInf PInf = True"
| "feq NInf NInf = True"
| "feq _ _ = False"

definition fle :: "pyfloat \<Rightarrow> pyfloat \<Rightarrow> bool" where
  "fle a b = (flt a b \<or> feq a b)"

text \<open>\<open>max(a, b)\<close> and \<open>min(a, b)\<close>: the first argument stays unless the second is strictly
  greater (smaller).\<close>

definition fmax :: "pyfloat \<Rightarrow> pyfloat \<Rightarrow> pyfloat" where
  "fmax a b = (if flt a b then b else a)"

definition fmin :: "pyfloat \<Rightarrow> pyfloat \<Rightarrow> pyfloat" where
  "fmin a b = (if flt b a then b else a)"

text \<open>
  \<open>x % 1.0\<close>: C's \<open>fmod\<close> is exact and has the sign of \<open>x\<close>; a negative remainder is brought
  back by a (rounded) addition of \<open>1.0\<close>. On an infinity or a NaN the result is a NaN.
\<close>

fun fmod1 :: "pyfloat \<Rightarrow> pyfloat" where
  "fmod1 (Fin x) =
     (if 0 \<le> x then Fin (x - of_int \<lfloor>x\<rfloor>)
      else let r = x - of_int \<lceil>x\<rceil> in if r = 0 then Fin 0 else fadd (Fin r) (Fin 1))"
| "fmod1 _ = NaN"

text \<open>\<open>round(x)\<close>: \<open>OverflowError\<close> on an infinity, \<open>ValueError\<close> on a NaN.\<close>

fun py_round :: "pyfloat \<Rightarrow> int option" where
  "py_round (Fin x) = Some (rhe x)"
| "py_round _ = None"

text \<open>
  An \<open>int\<close> operand of a float operation is converted to the nearest double
  (\<open>OverflowError\<close> when it is too large); \<open>a / b\<close> on two \<open>int\<close>s is the correctly rounded
  quotient (\<open>ZeroDivisionError\<close>, \<open>OverflowError\<close>).
\<close>

definition finite_only :: "pyfloat \<Rightarrow> pyfloat option" where
  "finite_only x = (case x of Fin y \<Rightarrow> Some (Fin y) | _ \<Rightarrow> None)"

definition int_to_float :: "int \<Rightarrow> pyfloat option" where
  "int_to_float i = finite_only (fl (of_int i))"

definition int_truediv :: "int \<Rightarrow> int \<Rightarrow> pyfloat option" where
  "int_truediv a b = (if b = 0 then None else finite_only (fl (of_int a / of_int b)))"

section \<open>The standard library's colorsys\<close>

text \<open>
  \<open>rgb_to_hls\<close> and \<open>hls_to_rgb\<close> as CPython has them, with the saturation of a light colour
  computed as \<open>rangec / (2.0-maxc-minc)\<close>, as current CPython does (some releases, among them
  3.11.0 to 3.11.4, compute \<open>rangec / (2.0-sumc)\<close>, which can differ in the last bit).
\<close>

definition ONE_THIRD :: pyfloat where "ONE_THIRD = fl (1 / 3)"
definition ONE_SIXTH :: pyfloat where "ONE_SIXTH = fl (1 / 6)"
definition TWO_THIRD :: pyfloat where "TWO_THIRD = fl (2 / 3)"

definition rgb_to_hls :: "pyfloat \<Rightarrow> pyfloat \<Rightarrow> pyfloat \<Rightarrow> (pyfloat \<times> pyfloat \<times> pyfloat) option" where
  "rgb_to_hls r g b =
     (let maxc = fmax (fmax r g) b;
          minc = fmin (fmin r g) b;
          sumc = fadd maxc minc;
          rangec = fsub maxc minc
      in do {
        l \<leftarrow> fdiv sumc (Fin 2);
        if feq minc maxc then Some (Fin 0, l, Fin 0)
        else do {
          s \<leftarrow> (if fle l (Fin (1 / 2)) then fdiv rangec sumc
                else fdiv rangec (fsub (fsub (Fin 2) maxc) minc));
          rc \<leftarrow> fdiv (fsub maxc r) rangec;
          gc \<leftarrow> fdiv (fsub maxc g) rangec;
          bc \<leftarrow> fdiv (fsub maxc b) rangec;
          h \<leftarrow> fdiv (if feq r maxc then fsub bc gc
                      else if feq g maxc then fsub (fadd (Fin 2) rc) bc
                      else fsub (fadd (Fin 4) gc) rc) (Fin 6);
          Some (fmod1 h, l, s)
        }
      })"

text \<open>\<open>_v(m1, m2, hue)\<close>\<close>

definition colorsys_v :: "pyfloat \<Rightarrow> pyfloat \<Rightarrow> pyfloat \<Rightarrow> pyfloat" where
  "colorsys_v m1 m2 hue0 =
     (let hue = fmod1 hue0 in
      if flt hue ONE_SIXTH then fadd m1 (fmul (fmul (fsub m2 m1) hue) (Fin 6))
      else if flt hue (Fin (1 / 2)) then m2
      else if flt hue TWO_THIRD then fadd m1 (fmul (fmul (fsub m2 m1) (fsub TWO_THIRD hue)) (Fin 6))
      else m1)"

definition hls_to_rgb :: "pyfloat \<Rightarrow> pyfloat \<Rightarrow> pyfloat \<Rightarrow> pyfloat \<times> pyfloat \<times> pyfloat" where
  "hls_to_rgb h l s =
     (if feq s (Fin 0) then (l, l, l)
      else let m2 = (if fle l (Fin (1 / 2)) then fmul l (fadd (Fin 1) s)
                     else fsub (fadd l s) (fmul l s));
               m1 = fsub (fmul (Fin 2) l) m2
           in (colorsys_v m1 m2 (fadd h ONE_THIRD), colorsys_v m1 m2 h,
               colorsys_v m1 m2 (fsub h ONE_THIRD)))"

section \<open>Theme colours and tint (utils/theme.py)\<close>

definition RGBMAX :: int where "RGBMAX = 255"
definition HLSMAX :: int where "HLSMAX = 240"

definition is_hex_char :: "char \<Rightarrow> bool" where
  "is_hex_char c = (c \<in> set ''0123456789abcdefABCDEF'')"

definition hex_digit_val :: "char \<Rightarrow> int" where
  "hex_digit_val c =
     (let n = int (of_char c :: nat) in
      if 48 \<le> n \<and> n \<le> 57 then n - 48
      else if 97 \<le> n \<and> n \<le> 102 then n - 87
      else n - 55)"

text \<open>
  \<open>int(s, 16)\<close> on a string of hexadecimal digits: \<open>ValueError\<close> on the empty string.
  (The callers have checked the characters; any other string is a \<open>ValueError\<close> here.)
\<close>

definition int_base16 :: "string \<Rightarrow> int option" where
  "int_base16 s =
     (if s = [] \<or> \<not> list_all is_hex_char s then None
      else Some (foldl (\<lambda>acc c. 16 * acc + hex_digit_val c) 0 s))"

definition white_hls :: "int \<times> int \<times> int" where
  "white_hls = (0, HLSMAX, 0)"

text \<open>
  \<open>rgb_to_ms_hls(red)\<close> for a string argument (\<open>green\<close> and \<open>blue\<close> are \<open>None\<close>), the only way
  \<open>theme_and_tint_to_rgb\<close> calls it. \<open>red[-6:]\<close> keeps the last six characters.
\<close>

definition rgb_to_ms_hls_try :: "string \<Rightarrow> (int \<times> int \<times> int) option" where
  "rgb_to_ms_hls_try red0 =
     (let red = (if 6 < length red0 then drop (length red0 - 6) red0 else red0) in
      do {
        bi \<leftarrow> int_base16 (drop 4 red);
        blue \<leftarrow> int_truediv bi RGBMAX;
        gi \<leftarrow> int_base16 (take 2 (drop 2 red));
        green \<leftarrow> int_truediv gi RGBMAX;
        ri \<leftarrow> int_base16 (take 2 red);
        redf \<leftarrow> int_truediv ri RGBMAX;
        (h, l, s) \<leftarrow> rgb_to_hls redf green blue;
        hmax \<leftarrow> int_to_float HLSMAX;
        hi \<leftarrow> py_round (fmul h hmax);
        li \<leftarrow> py_round (fmul l hmax);
        si \<leftarrow> py_round (fmul s hmax);
        Some (hi, li, si)
      })"

definition rgb_to_ms_hls :: "string \<Rightarrow> int \<times> int \<times> int" where
  "rgb_to_ms_hls red =
     (if \<not> list_all is_hex_char (filter (\<lambda>c. c \<noteq> CHR ''#'') red) then white_hls
      else case rgb_to_ms_hls_try red of None \<Rightarrow> white_hls | Some t \<Rightarrow> t)"

definition ms_hls_to_rgb :: "int \<Rightarrow> int \<Rightarrow> int \<Rightarrow> (pyfloat \<times> pyfloat \<times> pyfloat) option" where
  "ms_hls_to_rgb hue lightness saturation =
     do {
       h \<leftarrow> int_truediv hue HLSMAX;
       l \<leftarrow> int_truediv lightness HLSMAX;
       s \<leftarrow> int_truediv saturation HLSMAX;
       Some (hls_to_rgb h l s)
     }"

definition hex_char :: "nat \<Rightarrow> char" where
  "hex_char n = ''0123456789abcdef'' ! n"

function hex_nat :: "nat \<Rightarrow> string" where
  "hex_nat n = (if n < 16 then [hex_char n] else hex_nat (n div 16) @ [hex_char (n mod 16)])"
  by pat_completeness auto
termination
  by (relation "measure id") auto

text \<open>\<open>'%02x' % i\<close>: at least two characters, padded with \<open>0\<close>; a negative number has its sign.\<close>

definition fmt_02x :: "int \<Rightarrow> string" where
  "fmt_02x i =
     (if i < 0 then CHR ''-'' # hex_nat (nat (- i))
      else let s = hex_nat (nat i) in if length s < 2 then CHR ''0'' # s else s)"

text \<open>\<open>s.upper()\<close>, character by character (ASCII).\<close>

definition upper_char :: "char \<Rightarrow> char" where
  "upper_char c =
     (case map_of (zip ''abcdefghijklmnopqrstuvwxyz'' ''ABCDEFGHIJKLMNOPQRSTUVWXYZ'') c of
        None \<Rightarrow> c | Some u \<Rightarrow> u)"

definition rgb_to_hex :: "pyfloat \<times> pyfloat \<times> pyfloat \<Rightarrow> string option" where
  "rgb_to_hex rgb =
     (case rgb of (red, green, blue) \<Rightarrow>
      do {
        m \<leftarrow> int_to_float RGBMAX;
        r \<leftarrow> py_round (fmul red m);
        g \<leftarrow> py_round (fmul green m);
        b \<leftarrow> py_round (fmul blue m);
        Some (map upper_char (fmt_02x r @ fmt_02x g @ fmt_02x b))
      })"

definition tint_luminance :: "pyfloat \<Rightarrow> int \<Rightarrow> int option" where
  "tint_luminance tint lum =
     (if flt tint (Fin 0) then
        do { l \<leftarrow> int_to_float lum;
             py_round (fmul l (fadd (Fin 1) tint)) }
      else
        do { l \<leftarrow> int_to_float lum;
             m \<leftarrow> int_to_float HLSMAX;
             py_round (fadd (fmul l (fsub (Fin 1) tint))
                            (fsub m (fmul m (fsub (Fin 1) tint)))) })"

text \<open>
  The workbook, as far as the modelled code reads it: \<open>wb.loaded_theme\<close> is \<open>None\<close> or
  the theme's XML source, which \<open>fromstring\<close> parses into an element tree or rejects with an
  exception; \<open>wb.worksheets\<close> is the list of sheets.
\<close>

datatype xml = Elem (tag: string) (attrib: "(string \<times> string) list") (children: "xml list")

datatype theme_source = Malformed | Parsed xml

record 'ws workbook =
  loaded_theme :: "theme_source option"
  worksheets :: "'ws list"

definition xlmns :: string where
  "xlmns = ''http://schemas.openxmlformats.org/drawingml/2006/main''"

text \<open>\<open>QName(ns, name).text\<close>\<close>

definition qname :: "string \<Rightarrow> string \<Rightarrow> string" where
  "qname ns name = ''{'' @ ns @ ''}'' @ name"

text \<open>\<open>el.findall(tag)\<close>: the direct children with this tag; \<open>el.find(tag)\<close>: the first.\<close>

definition findall :: "xml \<Rightarrow> string \<Rightarrow> xml list" where
  "findall el t = filter (\<lambda>c. tag c = t) (children el)"

definition find_el :: "xml \<Rightarrow> string \<Rightarrow> xml option" where
  "find_el el t = (case findall el t of [] \<Rightarrow> None | c # _ \<Rightarrow> Some c)"

text \<open>\<open>d.get(k, default)\<close>\<close>

definition dict_get :: "('k \<times> 'v) list \<Rightarrow> 'k \<Rightarrow> 'v \<Rightarrow> 'v" where
  "dict_get d k dflt = (case map_of d k of None \<Rightarrow> dflt | Some v \<Rightarrow> v)"

text \<open>\<open>sub in s\<close> on strings\<close>

fun str_contains :: "string \<Rightarrow> string \<Rightarrow> bool" where
  "str_contains sub [] = (sub = [])"
| "str_contains sub (c # cs) = (take (length sub) (c # cs) = sub \<or> str_contains sub cs)"

definition theme_slots :: "string list" where
  "theme_slots = [''lt1'', ''dk1'', ''lt2'', ''dk2'', ''accent1'', ''accent2'', ''accent3'',
                  ''accent4'', ''accent5'', ''accent6'']"

definition slot_colors :: "xml \<Rightarrow> string \<Rightarrow> string list" where
  "slot_colors firstColorScheme c =
     (case find_el firstColorScheme (qname xlmns c) of
        None \<Rightarrow> [''FFFFFF'']
      | Some accent \<Rightarrow>
          map (\<lambda>i. if str_contains ''window'' (dict_get (attrib i) ''val'' '''')
                    then dict_get (attrib i) ''lastClr'' (dict_get (attrib i) ''val'' ''FFFFFF'')
                    else dict_get (attrib i) ''val'' ''FFFFFF'')
              (children accent))"

text \<open>\<open>get_theme_colors(wb)\<close>; the result \<open>None\<close> is the parser's exception.\<close>

definition get_theme_colors :: "'ws workbook \<Rightarrow> string list option" where
  "get_theme_colors wb =
     (case loaded_theme wb of
        None \<Rightarrow> Some [''FFFFFF'']
      | Some Malformed \<Rightarrow> None
      | Some (Parsed troot) \<Rightarrow>
          (case find_el troot (qname xlmns ''themeElements'') of
             None \<Rightarrow> Some [''FFFFFF'']
           | Some themeEl \<Rightarrow>
               (case findall themeEl (qname xlmns ''clrScheme'') of
                  [] \<Rightarrow> Some [''FFFFFF'']
                | firstColorScheme # _ \<Rightarrow>
                    Some (concat (map (slot_colors firstColorScheme) theme_slots)))))"

text \<open>\<open>xs[i]\<close> on a list: a negative index counts from the end; \<open>None\<close> is \<open>IndexError\<close>.\<close>

definition py_index :: "'a list \<Rightarrow> int \<Rightarrow> 'a option" where
  "py_index xs i =
     (if 0 \<le> i \<and> i < int (length xs) then Some (xs ! nat i)
      else if i < 0 \<and> - int (length xs) \<le> i then Some (xs ! nat (int (length xs) + i))
      else None)"

text \<open>
  \<open>theme_and_tint_to_rgb(wb, theme, tint)\<close>. The outer \<open>try\<close> turns every exception into
  \<open>'FFFFFF'\<close>: the parser's, the \<open>IndexError\<close> of \<open>get_theme_colors(wb)[0]\<close> on an empty
  palette, and those of the conversion.
\<close>

definition tint_rgb :: "string \<Rightarrow> pyfloat \<Rightarrow> string" where
  "tint_rgb rgb tint =
     (if \<not> list_all is_hex_char rgb then ''FFFFFF''
      else case rgb_to_ms_hls rgb of (h, l, s) \<Rightarrow>
        (case do { l' \<leftarrow> tint_luminance tint l;
                   c \<leftarrow> ms_hls_to_rgb h l' s;
                   rgb_to_hex c } of
           None \<Rightarrow> ''FFFFFF''
         | Some hex \<Rightarrow> hex))"

definition theme_and_tint_to_rgb :: "'ws workbook \<Rightarrow> int \<Rightarrow> pyfloat \<Rightarrow> string" where
  "theme_and_tint_to_rgb wb theme tint =
     (case get_theme_colors wb of
        None \<Rightarrow> ''FFFFFF''
      | Some colors \<Rightarrow>
          (case py_index colors theme of
             Some rgb \<Rightarrow> tint_rgb rgb tint
           | None \<Rightarrow>
               (case py_index colors 0 of
                  None \<Rightarrow> ''FFFFFF''
                | Some rgb \<Rightarrow> tint_rgb rgb tint)))"

subsection \<open>Example themes\<close>

text \<open>
  Workbooks (without sheets) with the colour scheme of the Office theme, as files written by
  Excel carry it, with a scheme that declares the slot \<open>lt1\<close> only, with a scheme whose ten
  slots are empty elements, and with no theme.
\<close>

definition srgb_slot :: "string \<Rightarrow> string \<Rightarrow> xml" where
  "srgb_slot name val = Elem (qname xlmns name) [] [Elem (qname xlmns ''srgbClr'') [(''val'', val)] []]"

definition sys_slot :: "string \<Rightarrow> string \<Rightarrow> string \<Rightarrow> xml" where
  "sys_slot name val lastClr =
     Elem (qname xlmns name) []
       [Elem (qname xlmns ''sysClr'') [(''val'', val), (''lastClr'', lastClr)] []]"

definition wb_of_scheme :: "xml list \<Rightarrow> 'ws workbook" where
  "wb_of_scheme slots =
     \<lparr>loaded_theme = Some (Parsed (Elem (qname xlmns ''theme'') [(''name'', ''Office Theme'')]
        [Elem (qname xlmns ''themeElements'') []
           [Elem (qname xlmns ''clrScheme'') [(''name'', ''Office'')] slots]])),
      worksheets = []\<rparr>"


definition lt1_only_wb :: "string \<Rightarrow> 'ws workbook" where
  "lt1_only_wb val = wb_of_scheme [srgb_slot ''lt1'' val]"

definition empty_slots_wb :: "'ws workbook" where
  "empty_slots_wb = wb_of_scheme (map (\<lambda>name. Elem (qname xlmns name) [] []) theme_slots)"

definition no_theme_wb :: "'ws workbook" where
  "no_theme_wb = \<lparr>loaded_theme = None, worksheets = []\<rparr>"

section \<open>Colours, borders and cell styles (core.py)\<close>

text \<open>
  An openpyxl \<open>Color\<close> is tagged by \<open>color.type\<close> (\<open>'auto'\<close>, \<open>'rgb'\<close>, \<open>'indexed'\<close>,
  \<open>'theme'\<close>) and carries the value of that kind; the tint is read for theme colours only.
\<close>

datatype color = Auto | RGB string | Indexed int | Theme int pyfloat

text \<open>
  \<open>COLOR_INDEX\<close> of \<open>openpyxl.styles.colors\<close>: the legacy palette, 64 entries in openpyxl 3
  (earlier releases append the two strings \<open>'System Foreground'\<close> and \<open>'System Background'\<close>).
  The functions below take the tuple as the parameter \<open>ci\<close>.
\<close>

definition COLOR_INDEX :: "string list" where
  "COLOR_INDEX =
    [''00000000'', ''00FFFFFF'', ''00FF0000'', ''0000FF00'', ''000000FF'',
     ''00FFFF00'', ''00FF00FF'', ''0000FFFF'', ''00000000'', ''00FFFFFF'',
     ''00FF0000'', ''0000FF00'', ''000000FF'', ''00FFFF00'', ''00FF00FF'',
     ''0000FFFF'', ''00800000'', ''00008000'', ''00000080'', ''00808000'',
     ''00800080'', ''00008080'', ''00C0C0C0'', ''00808080'', ''009999FF'',
     ''00993366'', ''00FFFFCC'', ''00CCFFFF'', ''00660066'', ''00FF8080'',
     ''000066CC'', ''00CCCCFF'', ''00000080'', ''00FF00FF'', ''00FFFF00'',
     ''0000FFFF'', ''00800080'', ''00800000'', ''00008080'', ''000000FF'',
     ''0000CCFF'', ''00CCFFFF'', ''00CCFFCC'', ''00FFFF99'', ''0099CCFF'',
     ''00FF99CC'', ''00CC99FF'', ''00FFCC99'', ''003366FF'', ''0033CCCC'',
     ''0099CC00'', ''00FFCC00'', ''00FF9900'', ''00FF6600'', ''00666699'',
     ''00969696'', ''00003366'', ''00339966'', ''00003300'', ''00333300'',
     ''00993300'', ''00993366'', ''00333399'', ''00333333'']"

text \<open>
  \<open>aRGB_REGEX.match(s)\<close> for \<open>^([A-Fa-f0-9]{8}|[A-Fa-f0-9]{6})$\<close>: six or eight hexadecimal
  digits; \<open>$\<close> also matches before one final newline.
\<close>

definition hex_6_or_8 :: "string \<Rightarrow> bool" where
  "hex_6_or_8 s = ((length s = 6 \<or> length s = 8) \<and> list_all is_hex_char s)"

definition aRGB_match :: "string \<Rightarrow> bool" where
  "aRGB_match s = (hex_6_or_8 s \<or> (s \<noteq> [] \<and> last s = CHR 0x0A \<and> hex_6_or_8 (butlast s)))"

text \<open>
  The \<open>indexed\<close> branch of \<open>normalize_color\<close>: the \<open>IndexError\<close> of the lookup is caught and
  leaves \<open>rgb = None\<close>; a missing, empty or non-matching entry becomes \<open>"00000000"\<close>.
\<close>

definition indexed_rgb :: "string list \<Rightarrow> int \<Rightarrow> string" where
  "indexed_rgb ci i =
     (case py_index ci i of
        None \<Rightarrow> ''00000000''
      | Some rgb \<Rightarrow> if rgb = [] \<or> \<not> aRGB_match rgb then ''00000000'' else rgb)"

text \<open>\<open>if rgb: return "#" + rgb[2:]\<close>, else \<open>None\<close>\<close>

definition hash_rgb :: "string \<Rightarrow> string option" where
  "hash_rgb rgb = (if rgb \<noteq> [] then Some (CHR ''#'' # drop 2 rgb) else None)"

fun normalize_color :: "string list \<Rightarrow> 'ws workbook \<Rightarrow> color \<Rightarrow> string option" where
  "normalize_color ci wb Auto = Some ''#000000''"
| "normalize_color ci wb (Theme theme tint) = Some (CHR ''#'' # theme_and_tint_to_rgb wb theme tint)"
| "normalize_color ci wb (RGB rgb) = hash_rgb rgb"
| "normalize_color ci wb (Indexed i) = hash_rgb (indexed_rgb ci i)"

text \<open>
  A border side (\<open>cell.border.left\<close> ...) has a style name and a colour, each possibly
  \<open>None\<close>; a side itself may be \<open>None\<close>.
\<close>

record side =
  side_style :: "string option"
  side_color :: "color option"

record border =
  border_right :: "side option"
  border_left :: "side option"
  border_top :: "side option"
  border_bottom :: "side option"

text \<open>
  \<open>BORDER_STYLES\<close> of \<open>xlsx2html.constants.border\<close> is not among the sources; the functions
  take it as the parameter \<open>bs\<close>: a dict from style names to \<open>None\<close> or to a dict of CSS
  properties. \<open>BORDER_STYLES.get(name)\<close> is \<open>None\<close> for a name that is \<open>None\<close>, that is no key,
  or whose entry is \<open>None\<close>.
\<close>

type_synonym border_styles = "(string \<times> (string \<times> string) list option) list"

definition border_styles_get :: "border_styles \<Rightarrow> string option \<Rightarrow> (string \<times> string) list option" where
  "border_styles_get bs name =
     (case name of
        None \<Rightarrow> None
      | Some n \<Rightarrow> (case map_of bs n of None \<Rightarrow> None | Some entry \<Rightarrow> entry))"

text \<open>\<open>"border-%s-%s" % (b_dir, k)\<close>\<close>

definition border_key :: "string \<Rightarrow> string \<Rightarrow> string" where
  "border_key b_dir k = ''border-'' @ b_dir @ ''-'' @ k"

text \<open>One round of the loop over the four directions in \<open>get_border_style_from_cell\<close>.\<close>

definition border_dir_step ::
  "string list \<Rightarrow> border_styles \<Rightarrow> 'ws workbook \<Rightarrow> styles \<Rightarrow> string \<times> side option \<Rightarrow> styles" where
  "border_dir_step ci bs wb h_styles d =
     (case snd d of
        None \<Rightarrow> h_styles
      | Some b_s \<Rightarrow>
          (case border_styles_get bs (side_style b_s) of
             None \<Rightarrow> h_styles
           | Some border_style \<Rightarrow>
               if border_style = [] then h_styles
               else
                 let h1 = foldl (\<lambda>h kv. AList.update (border_key (fst d) (fst kv)) (Some (snd kv)) h)
                            h_styles border_style
                 in (case side_color b_s of
                       None \<Rightarrow> h1
                     | Some c \<Rightarrow> AList.update (border_key (fst d) ''color'') (normalize_color ci wb c) h1)))"

definition border_dirs :: "border \<Rightarrow> (string \<times> side option) list" where
  "border_dirs b = [(''right'', border_right b), (''left'', border_left b),
                    (''top'', border_top b), (''bottom'', border_bottom b)]"

definition get_border_style :: "string list \<Rightarrow> border_styles \<Rightarrow> 'ws workbook \<Rightarrow> border \<Rightarrow> styles" where
  "get_border_style ci bs wb b = foldl (border_dir_step ci bs wb) [] (border_dirs b)"

text \<open>
  The cell, as far as the modelled code reads it. \<open>cell.coordinate\<close> (\<open>'B3'\<close>) is kept as the
  pair (column index, row) it stands for. A fill without \<open>patternType\<close> (a gradient fill) makes
  the attribute access raise \<open>AttributeError\<close>, which the code suppresses. \<open>font_sz\<close> is
  \<open>str(cell.font.sz)\<close>, the text that \<open>"%spx" % cell.font.sz\<close> inserts.
\<close>

record alignment =
  al_horizontal :: "string option"
  al_vertical :: "string option"

datatype fill = PatternFill "string option" color | GradientFill

record font =
  font_sz :: string
  font_name :: "string option"
  font_color :: "color option"
  font_b :: bool
  font_i :: bool
  font_u :: "string option"

record cell =
  cell_value :: pyval
  cell_coordinate :: "nat \<times> nat"
  cell_row :: nat
  cell_column :: nat
  cell_border :: border
  cell_alignment :: alignment
  cell_fill :: fill
  cell_font :: "font option"

definition get_border_style_from_cell ::
  "string list \<Rightarrow> border_styles \<Rightarrow> 'ws workbook \<Rightarrow> cell \<Rightarrow> styles" where
  "get_border_style_from_cell ci bs wb c = get_border_style ci bs wb (cell_border c)"

text \<open>Truthiness of an optional string: neither \<open>None\<close> nor empty.\<close>

definition str_truthy :: "string option \<Rightarrow> bool" where
  "str_truthy s = (case s of None \<Rightarrow> False | Some v \<Rightarrow> v \<noteq> [])"

definition set_if :: "bool \<Rightarrow> string \<Rightarrow> string option \<Rightarrow> styles \<Rightarrow> styles" where
  "set_if c k v h = (if c then AList.update k v h else h)"

definition fill_styles :: "string list \<Rightarrow> 'ws workbook \<Rightarrow> fill \<Rightarrow> styles \<Rightarrow> styles" where
  "fill_styles ci wb f h =
     (case f of
        GradientFill \<Rightarrow> h
      | PatternFill patternType fgColor \<Rightarrow>
          let h1 = set_if (patternType = Some ''solid'') ''background-color''
                     (normalize_color ci wb fgColor) h
          in set_if (patternType \<noteq> Some ''solid'' \<and> patternType \<noteq> None) ''background-color''
               (Some ''#EEEEEE'') h1)"

definition font_styles :: "string list \<Rightarrow> 'ws workbook \<Rightarrow> font option \<Rightarrow> styles \<Rightarrow> styles" where
  "font_styles ci wb fo h =
     (case fo of
        None \<Rightarrow> h
      | Some f \<Rightarrow>
          let h1 = AList.update ''font-size'' (Some (font_sz f @ ''px'')) h;
              h2 = set_if (str_truthy (font_name f)) ''font-family'' (font_name f) h1;
              h3 = (case font_color f of None \<Rightarrow> h2
                    | Some c \<Rightarrow> AList.update ''color'' (normalize_color ci wb c) h2);
              h4 = set_if (font_b f) ''font-weight'' (Some ''bold'') h3;
              h5 = set_if (font_i f) ''font-style'' (Some ''italic'') h4
          in set_if (str_truthy (font_u f)) ''text-decoration'' (Some ''underline'') h5)"

text \<open>
  \<open>get_styles_from_cell(wb, cell, merged_cell_map, default_cell_border)\<close>. The third argument
  is \<open>{}\<close> (here \<open>[]\<close>: no member cells) or the entry of the merge map, of which the member
  cells are read; \<open>default_cell_border\<close> is not used by the code.
\<close>

definition get_styles_from_cell ::
  "string list \<Rightarrow> border_styles \<Rightarrow> 'ws workbook \<Rightarrow> cell \<Rightarrow> cell list \<Rightarrow> styles" where
  "get_styles_from_cell ci bs wb c merged_cells =
     (let b_styles = foldl (\<lambda>b m_cell. dict_update b (get_border_style_from_cell ci bs wb m_cell))
                       (get_border_style_from_cell ci bs wb c) merged_cells;
          h0 = dict_update [(''border-collapse'', Some ''collapse'')] b_styles;
          h1 = set_if (str_truthy (al_horizontal (cell_alignment c))) ''text-align''
                 (al_horizontal (cell_alignment c)) h0;
          h2 = set_if (str_truthy (al_vertical (cell_alignment c))) ''vertical-align''
                 (al_vertical (cell_alignment c)) h1;
          h3 = fill_styles ci wb (cell_fill c) h2
      in font_styles ci wb (cell_font c) h3)"

section \<open>The sheet and its render model (core.py)\<close>

datatype error = TypeError | KeyError | ValueError | IndexError

text \<open>An openpyxl \<open>CellRange\<close>: the bounds of a rectangle of cells, all inclusive.\<close>

record cell_range =
  min_col :: nat
  min_row :: nat
  max_col :: nat
  max_row :: nat

record row_dimension =
  rd_hidden :: bool

record data_validation =
  dv_type :: "string option"
  dv_ranges :: "cell_range list"

text \<open>
  An entry of \<open>data["cols"]\<close> and an image of \<open>data["images"]\<close> as \<open>render_table\<close> reads them.
  \<open>col_index\<close> is \<open>col_dim.index\<close>, the column letter; the numbers of an image are kept as
  the text \<open>str.format\<close> inserts for them.
\<close>

record column_spec =
  col_index :: string
  col_hidden :: bool
  col_style :: styles

record image_data =
  img_width :: string
  img_height :: string
  img_src :: string
  img_style :: styles

text \<open>
  The sheet. \<open>ws_rows\<close> is \<open>list(ws.iter_rows())\<close>: the rows \<open>1 .. max_row\<close>, each with the
  cells of the columns \<open>1 .. max_column\<close>. \<open>ws_merged_ranges\<close> is \<open>ws.merged_cells.ranges\<close>,
  \<open>ws_row_dimensions\<close> holds the declared row dimensions (a row without one has the default,
  not hidden). The column list (computed from \<open>ws.column_dimensions\<close>) and the image map
  (\<open>images_to_data(ws)\<close>) involve float arithmetic on widths and offsets only and are carried
  as computed, in \<open>ws_col_list\<close> and \<open>ws_images_data\<close>; row heights are left out.
\<close>

record worksheet =
  ws_title :: string
  ws_rows :: "cell list list"
  ws_merged_ranges :: "cell_range list"
  ws_row_dimensions :: "(nat \<times> row_dimension) list"
  ws_data_validations :: "data_validation list"
  ws_col_list :: "column_spec list"
  ws_images_data :: "(string \<times> image_data list) list"

text \<open>A cell of \<open>data["rows"]\<close>, and the returned dict.\<close>

record grid_cell =
  gc_column :: nat
  gc_row :: nat
  gc_value :: pyval
  gc_formatted_value :: string
  gc_is_list :: bool
  gc_attrs :: attrs
  gc_style :: styles

record sheet_data =
  sd_title :: string
  sd_rows :: "grid_cell list list"
  sd_cols :: "column_spec list"
  sd_images :: "(string \<times> image_data list) list"
  sd_styles :: "(string \<times> styles) list"

text \<open>The entry of \<open>merged_cell_map\<close> for the top-left cell of a merged range.\<close>

record merged_info =
  mi_attrs :: attrs
  mi_cells :: "cell list"

text \<open>
  The default style objects of openpyxl and the empty cell that reading a coordinate creates.
\<close>

definition default_side :: side where
  "default_side = \<lparr>side_style = None, side_color = None\<rparr>"

definition default_border :: border where
  "default_border = \<lparr>border_right = Some default_side, border_left = Some default_side,
                      border_top = Some default_side, border_bottom = Some default_side\<rparr>"

definition default_font :: font where
  "default_font = \<lparr>font_sz = ''11.0'', font_name = Some ''Calibri'', font_color = None,
                    font_b = False, font_i = False, font_u = None\<rparr>"

definition plain_cell :: "nat \<Rightarrow> nat \<Rightarrow> pyval \<Rightarrow> cell" where
  "plain_cell col row v =
     \<lparr>cell_value = v, cell_coordinate = (col, row), cell_row = row, cell_column = col,
      cell_border = default_border,
      cell_alignment = \<lparr>al_horizontal = None, al_vertical = None\<rparr>,
      cell_fill = PatternFill None (RGB ''00000000''),
      cell_font = Some default_font\<rparr>"

text \<open>\<open>get_column_letter\<close> and the text of a coordinate, \<open>get_cell_id(cell)\<close>.\<close>

function col_letters :: "nat \<Rightarrow> string" where
  "col_letters n =
     (if n = 0 then []
      else col_letters ((n - 1) div 26) @ [''ABCDEFGHIJKLMNOPQRSTUVWXYZ'' ! ((n - 1) mod 26)])"
  by pat_completeness auto
termination
  by (relation "measure id") auto

definition get_cell_id :: "cell \<Rightarrow> string" where
  "get_cell_id c = col_letters (fst (cell_coordinate c)) @ str_nat (snd (cell_coordinate c))"

text \<open>
  \<open>ws[cell_range]\<close>: the rows of the cells of the range (a cell that the sheet does not hold
  yet is created empty); \<open>rows_from_range\<close>: their coordinates.
\<close>

definition ws_cell :: "worksheet \<Rightarrow> nat \<Rightarrow> nat \<Rightarrow> cell" where
  "ws_cell ws r c =
     (if 1 \<le> r \<and> r \<le> length (ws_rows ws) \<and> 1 \<le> c \<and> c \<le> length (ws_rows ws ! (r - 1))
      then ws_rows ws ! (r - 1) ! (c - 1)
      else plain_cell c r VNone)"

definition range_cells :: "worksheet \<Rightarrow> cell_range \<Rightarrow> cell list list" where
  "range_cells ws rg =
     map (\<lambda>r. map (\<lambda>c. ws_cell ws r c) [min_col rg ..< Suc (max_col rg)])
         [min_row rg ..< Suc (max_row rg)]"

definition range_coords :: "cell_range \<Rightarrow> (nat \<times> nat) list" where
  "range_coords rg =
     concat (map (\<lambda>r. map (\<lambda>c. (c, r)) [min_col rg ..< Suc (max_col rg)])
                 [min_row rg ..< Suc (max_row rg)])"

text \<open>\<open>None if span <= 1 else span\<close>\<close>

definition span_attr :: "nat \<Rightarrow> pyval" where
  "span_attr n = (if n \<le> 1 then VNone else VInt (int n))"

text \<open>
  One round of the loop over \<open>merged_cell_ranges\<close>. The coordinate text of a range of a
  single cell has no colon, \<open>ws[...]\<close> is then one cell and \<open>list(...)\<close> of it raises
  \<open>TypeError\<close>; \<open>excluded_cells.remove\<close> raises \<open>KeyError\<close> for a coordinate that is not
  (or no longer) in the set.
\<close>

definition merge_step ::
  "worksheet \<Rightarrow> ((nat \<times> nat) \<times> merged_info) list \<times> (nat \<times> nat) set \<Rightarrow> cell_range
     \<Rightarrow> error + ((nat \<times> nat) \<times> merged_info) list \<times> (nat \<times> nat) set" where
  "merge_step ws st rg =
     (if min_col rg = max_col rg \<and> min_row rg = max_row rg then Inl TypeError
      else case range_cells ws rg of
        [] \<Rightarrow> Inl IndexError
      | [] # _ \<Rightarrow> Inl IndexError
      | (m_cell # row0) # rest \<Rightarrow>
          let info = \<lparr>mi_attrs = [(''colspan'', span_attr (length (m_cell # row0))),
                                   (''rowspan'', span_attr (length ((m_cell # row0) # rest)))],
                       mi_cells = concat ((m_cell # row0) # rest)\<rparr>
          in if cell_coordinate m_cell \<in> snd st
             then Inr (AList.update (cell_coordinate m_cell) info (fst st),
                       snd st - {cell_coordinate m_cell})
             else Inl KeyError)"

fun merge_loop ::
  "worksheet \<Rightarrow> ((nat \<times> nat) \<times> merged_info) list \<times> (nat \<times> nat) set \<Rightarrow> cell_range list
     \<Rightarrow> error + ((nat \<times> nat) \<times> merged_info) list \<times> (nat \<times> nat) set" where
  "merge_loop ws st [] = Inr st"
| "merge_loop ws st (rg # rgs) =
     (case merge_step ws st rg of Inl e \<Rightarrow> Inl e | Inr st' \<Rightarrow> merge_loop ws st' rgs)"

text \<open>The cells under a data validation of type \<open>list\<close>, as pairs (row, column).\<close>

definition range_row_cols :: "cell_range \<Rightarrow> (nat \<times> nat) list" where
  "range_row_cols rg =
     concat (map (\<lambda>r. map (\<lambda>c. (r, c)) [min_col rg ..< Suc (max_col rg)])
                 [min_row rg ..< Suc (max_row rg)])"

definition cells_with_list :: "worksheet \<Rightarrow> (nat \<times> nat) list" where
  "cells_with_list ws =
     concat (map (\<lambda>dv. if dv_type dv = Some ''list''
                        then concat (map range_row_cols (dv_ranges dv)) else [])
                 (ws_data_validations ws))"

definition row_hidden :: "worksheet \<Rightarrow> nat \<Rightarrow> bool" where
  "row_hidden ws r = (case map_of (ws_row_dimensions ws) r of None \<Rightarrow> False | Some rd \<Rightarrow> rd_hidden rd)"

text \<open>\<open>s.replace("\n", "<br/>")\<close>\<close>

definition replace_newlines :: "string \<Rightarrow> string" where
  "replace_newlines s = concat (map (\<lambda>c. if c = CHR 0x0A then ''<br/>'' else [c]) s)"

text \<open>\<open>'wsid-%s-cellst-%s-%s' % (ws_id, row_i, col_i)\<close>\<close>

definition class_name :: "nat \<Rightarrow> nat \<Rightarrow> nat \<Rightarrow> string" where
  "class_name ws_id row_i col_i =
     ''wsid-'' @ str_nat ws_id @ ''-cellst-'' @ str_nat row_i @ ''-'' @ str_nat col_i"

text \<open>
  What the loops of \<open>worksheet_to_data\<close> read but do not change: the palette and border
  tables, \<open>format_cell\<close> (of \<open>xlsx2html.format\<close>, not among the sources: a parameter), the
  workbook and the sheet, \<open>ws_id\<close>, the merge map and the excluded coordinates.
\<close>

record 'ws env =
  env_ci :: "string list"
  env_bs :: border_styles
  env_format_cell :: "cell \<Rightarrow> string"
  env_wb :: "'ws workbook"
  env_ws :: worksheet
  env_ws_id :: nat
  env_merged :: "((nat \<times> nat) \<times> merged_info) list"
  env_excluded :: "(nat \<times> nat) set"

text \<open>\<open>cell.coordinate in excluded_cells or row_dim.hidden\<close>\<close>

definition cell_skipped :: "'ws env \<Rightarrow> cell \<Rightarrow> bool" where
  "cell_skipped env c = (cell_coordinate c \<in> env_excluded env \<or> row_hidden (env_ws env) (cell_row c))"

text \<open>
  \<open>cell_data\<close> for a cell that is not skipped. The key of the style tallies is
  \<open>json.dumps(cell_data["style"])\<close>; that text is only compared for equality and is the same
  for two dicts exactly when they hold the same items in the same order, so the dict's item
  list itself is the key.
\<close>

definition make_cell_data :: "'ws env \<Rightarrow> cell \<Rightarrow> grid_cell" where
  "make_cell_data env c =
     (let merged_cell_info = map_of (env_merged env) (cell_coordinate c);
          attrs0 = [(''id'', VStr (get_cell_id c))];
          attrs1 = (case merged_cell_info of None \<Rightarrow> attrs0
                    | Some info \<Rightarrow> dict_update attrs0 (mi_attrs info));
          style = dict_update []
                    (get_styles_from_cell (env_ci env) (env_bs env) (env_wb env) c
                       (case merged_cell_info of None \<Rightarrow> [] | Some info \<Rightarrow> mi_cells info))
      in \<lparr>gc_column = cell_column c, gc_row = cell_row c, gc_value = cell_value c,
           gc_formatted_value = replace_newlines (env_format_cell env c),
           gc_is_list = ((cell_row c, cell_column c) \<in> set (cells_with_list (env_ws env))),
           gc_attrs = attrs1, gc_style = style\<rparr>)"

text \<open>
  The state of the inner loop: the row under construction, the tally \<open>cell_styles\<close> and
  \<open>cell_classnames\<close>.
\<close>

type_synonym tallies = "grid_cell list \<times> (styles \<times> nat) list \<times> (styles \<times> string) list"

definition cell_step :: "'ws env \<Rightarrow> nat \<Rightarrow> tallies \<Rightarrow> nat \<times> cell \<Rightarrow> tallies" where
  "cell_step env row_i st ic =
     (case st of (data_row, cell_styles, cell_classnames) \<Rightarrow>
        if cell_skipped env (snd ic) then st
        else
          let cell_data = make_cell_data env (snd ic);
              style_key = gc_style cell_data
          in (data_row @ [cell_data],
              AList.update style_key
                (case map_of cell_styles style_key of None \<Rightarrow> 1 | Some n \<Rightarrow> n + 1) cell_styles,
              AList.update style_key (class_name (env_ws_id env) row_i (fst ic)) cell_classnames))"

record build_state =
  st_data_list :: "grid_cell list list"
  st_cell_styles :: "(styles \<times> nat) list"
  st_cell_classnames :: "(styles \<times> string) list"
  st_no_found_data :: bool

text \<open>
  One round of the loop over \<open>enumerate(reversed(list(ws.iter_rows())))\<close>. The row's list is
  put in front of \<open>data_list\<close> before anything else, so a row that is passed over leaves an
  empty list there.
\<close>

definition row_step :: "'ws env \<Rightarrow> build_state \<Rightarrow> nat \<times> cell list \<Rightarrow> build_state" where
  "row_step env st ir =
     (if st_no_found_data st \<and> list_all (\<lambda>c. cell_value c = VNone) (snd ir)
      then st\<lparr>st_data_list := [] # st_data_list st\<rparr>
      else
        case foldl (cell_step env (fst ir)) ([], st_cell_styles st, st_cell_classnames st)
               (enumerate 0 (snd ir)) of
          (data_row, cell_styles, cell_classnames) \<Rightarrow>
            \<lparr>st_data_list = data_row # st_data_list st, st_cell_styles = cell_styles,
             st_cell_classnames = cell_classnames, st_no_found_data = False\<rparr>)"

definition build_rows :: "'ws env \<Rightarrow> build_state" where
  "build_rows env =
     foldl (row_step env)
       \<lparr>st_data_list = [], st_cell_styles = [], st_cell_classnames = [], st_no_found_data = True\<rparr>
       (enumerate 0 (rev (ws_rows (env_ws env))))"

text \<open>
  The second pass. \<open>cell_styles[style_key]\<close> and \<open>cell_classnames[style_key]\<close> raise
  \<open>KeyError\<close> for a key that is not there.
\<close>

definition dedup_cell ::
  "(styles \<times> nat) list \<Rightarrow> (styles \<times> string) list \<Rightarrow> grid_cell \<Rightarrow> (string \<times> styles) list
     \<Rightarrow> error + grid_cell \<times> (string \<times> styles) list" where
  "dedup_cell cell_styles cell_classnames c style_data =
     (case map_of cell_styles (gc_style c) of
        None \<Rightarrow> Inl KeyError
      | Some n \<Rightarrow>
          if 1 < n then
            (case map_of cell_classnames (gc_style c) of
               None \<Rightarrow> Inl KeyError
             | Some classname \<Rightarrow>
                 Inr (c\<lparr>gc_attrs := dict_update (gc_attrs c) [(''class'', VStr classname)],
                        gc_style := []\<rparr>,
                      AList.update classname (gc_style c) style_data))
          else Inr (c, style_data))"

fun dedup_row ::
  "(styles \<times> nat) list \<Rightarrow> (styles \<times> string) list \<Rightarrow> grid_cell list \<Rightarrow> (string \<times> styles) list
     \<Rightarrow> error + grid_cell list \<times> (string \<times> styles) list" where
  "dedup_row cs cn [] style_data = Inr ([], style_data)"
| "dedup_row cs cn (c # rest) style_data =
     (case dedup_cell cs cn c style_data of
        Inl e \<Rightarrow> Inl e
      | Inr (c', sd1) \<Rightarrow>
          (case dedup_row cs cn rest sd1 of
             Inl e \<Rightarrow> Inl e
           | Inr (rest', sd2) \<Rightarrow> Inr (c' # rest', sd2)))"

fun dedup_rows ::
  "(styles \<times> nat) list \<Rightarrow> (styles \<times> string) list \<Rightarrow> grid_cell list list \<Rightarrow> (string \<times> styles) list
     \<Rightarrow> error + grid_cell list list \<times> (string \<times> styles) list" where
  "dedup_rows cs cn [] style_data = Inr ([], style_data)"
| "dedup_rows cs cn (r # rest) style_data =
     (case dedup_row cs cn r style_data of
        Inl e \<Rightarrow> Inl e
      | Inr (r', sd1) \<Rightarrow>
          (case dedup_rows cs cn rest sd1 of
             Inl e \<Rightarrow> Inl e
           | Inr (rest', sd2) \<Rightarrow> Inr (r' # rest', sd2)))"

text \<open>\<open>xs.index(x)\<close>: \<open>ValueError\<close> (here \<open>None\<close>) when \<open>x\<close> is not in the list.\<close>

fun list_index :: "'a list \<Rightarrow> 'a \<Rightarrow> nat option" where
  "list_index [] x = None"
| "list_index (y # ys) x =
     (if y = x then Some 0 else (case list_index ys x of None \<Rightarrow> None | Some n \<Rightarrow> Some (Suc n)))"

text \<open>
  The environment of the loops: the merge map and the excluded coordinates after the loop
  over the merged ranges (the branch for openpyxl releases after 2.4).
\<close>

definition make_env ::
  "string list \<Rightarrow> border_styles \<Rightarrow> (cell \<Rightarrow> string) \<Rightarrow> worksheet workbook \<Rightarrow> worksheet
     \<Rightarrow> error + worksheet env" where
  "make_env ci bs format_cell wb ws =
     (case list_index (worksheets wb) ws of
        None \<Rightarrow> Inl ValueError
      | Some idx \<Rightarrow>
          (case merge_loop ws ([], set (concat (map range_coords (ws_merged_ranges ws))))
                  (ws_merged_ranges ws) of
             Inl e \<Rightarrow> Inl e
           | Inr (merged_cell_map, excluded_cells) \<Rightarrow>
               Inr \<lparr>env_ci = ci, env_bs = bs, env_format_cell = format_cell, env_wb = wb,
                    env_ws = ws, env_ws_id = idx + 1, env_merged = merged_cell_map,
                    env_excluded = excluded_cells\<rparr>))"

definition worksheet_to_data ::
  "string list \<Rightarrow> border_styles \<Rightarrow> (cell \<Rightarrow> string) \<Rightarrow> worksheet workbook \<Rightarrow> worksheet
     \<Rightarrow> error + sheet_data" where
  "worksheet_to_data ci bs format_cell wb ws =
     (case make_env ci bs format_cell wb ws of
        Inl e \<Rightarrow> Inl e
      | Inr env \<Rightarrow>
          let st = build_rows env in
          (case dedup_rows (st_cell_styles st) (st_cell_classnames st) (st_data_list st) [] of
             Inl e \<Rightarrow> Inl e
           | Inr (rows, style_data) \<Rightarrow>
               Inr \<lparr>sd_title = ws_title ws, sd_rows = rows, sd_cols = ws_col_list ws,
                    sd_images = ws_images_data ws, sd_styles = style_data\<rparr>))"

subsection \<open>The table\<close>

definition dq :: string where "dq = [CHR 0x22]"

definition render_img :: "image_data \<Rightarrow> string" where
  "render_img img =
     ''<img width='' @ dq @ img_width img @ dq @ '' height='' @ dq @ img_height img @ dq
       @ ''style='' @ dq @ render_inline_styles (img_style img) @ dq
       @ ''src='' @ dq @ img_src img @ dq @ ''/>''"

text \<open>
  The images of a cell: those anchored at one of the columns the cell spans, in its row
  (\<open>colspan\<close> is \<open>1\<close> when the attribute is missing or \<open>None\<close>).
\<close>

definition cell_images :: "(string \<times> image_data list) list \<Rightarrow> grid_cell \<Rightarrow> image_data list" where
  "cell_images images c =
     (let colspan = (case map_of (gc_attrs c) ''colspan'' of Some (VInt n) \<Rightarrow> nat n | _ \<Rightarrow> 1)
      in concat (map (\<lambda>col. case map_of images (str_nat col @ '':'' @ str_nat (gc_row c)) of
                               None \<Rightarrow> [] | Some imgs \<Rightarrow> imgs)
                     [gc_column c ..< gc_column c + colspan]))"

definition render_cell :: "(string \<times> image_data list) list \<Rightarrow> grid_cell \<Rightarrow> string" where
  "render_cell images c =
     ''<td '' @ render_attrs (gc_attrs c) @ '' style='' @ dq @ render_inline_styles (gc_style c)
       @ dq @ ''>'' @ gc_formatted_value c
       @ str_join [CHR 0x0A] (map render_img (cell_images images c)) @ ''</td>''"

text \<open>
  \<open>hidden_columns\<close> holds \<open>col["index"]\<close>, column letters, while \<open>cell["column"]\<close> is the
  column number (which \<open>range(cell["column"], ...)\<close> requires): the membership test compares
  a number with strings.
\<close>

definition hidden_columns :: "sheet_data \<Rightarrow> pyval list" where
  "hidden_columns data = map (\<lambda>col. VStr (col_index col)) (filter col_hidden (sd_cols data))"

text \<open>
  One \<open><tr>\<close> of the table; \<open>append_lineno(trow, i)\<close> is a caller's hook that may extend
  \<open>trow\<close> (by default it does nothing).
\<close>

definition render_row ::
  "(string list \<Rightarrow> nat \<Rightarrow> string list) \<Rightarrow> sheet_data \<Rightarrow> nat \<times> grid_cell list \<Rightarrow> string" where
  "render_row append_lineno data ir =
     str_join [CHR 0x0A]
       (append_lineno [''<tr>''] (fst ir)
        @ map (render_cell (sd_images data))
              (filter (\<lambda>c. VInt (int (gc_column c)) \<notin> set (hidden_columns data)) (snd ir))
        @ [''</tr>''])"

definition table_rows ::
  "(string list \<Rightarrow> nat \<Rightarrow> string list) \<Rightarrow> sheet_data \<Rightarrow> string list" where
  "table_rows append_lineno data = map (render_row append_lineno data) (enumerate 0 (sd_rows data))"

definition table_head :: "sheet_data \<Rightarrow> string list" where
  "table_head data =
     (''<table  style='' @ dq @ ''border-collapse: collapse'' @ dq @ '' border='' @ dq @ ''0'' @ dq
        @ '' cellspacing='' @ dq @ ''0'' @ dq @ '' cellpadding='' @ dq @ ''0'' @ dq @ ''><colgroup>'')
     # map (\<lambda>col. ''<col '' @ render_attrs [] @ '' style='' @ dq
                    @ render_inline_styles (col_style col) @ dq @ ''>'') (sd_cols data)
     @ [''</colgroup>'']"

definition render_table ::
  "sheet_data \<Rightarrow> (sheet_data \<Rightarrow> string list \<Rightarrow> string list) \<Rightarrow> (string list \<Rightarrow> nat \<Rightarrow> string list)
     \<Rightarrow> string" where
  "render_table data append_headers append_lineno =
     str_join [CHR 0x0A]
       (append_headers data (table_head data) @ table_rows append_lineno data @ [''</table>''])"

text \<open>The default hooks of \<open>xlsx2html\<close>: they leave the lists as they are.\<close>

definition no_headers :: "sheet_data \<Rightarrow> string list \<Rightarrow> string list" where
  "no_headers data html = html"

definition no_lineno :: "string list \<Rightarrow> nat \<Rightarrow> string list" where
  "no_lineno trow i = trow"

subsection \<open>Example tables and sheets\<close>

text \<open>
  Modelled from the spec: \<open>BORDER_STYLES\<close> (\<open>xlsx2html/constants/border.py\<close> is not among the
  sources). The spec names thin, medium, thick, dashed, dotted and double as known styles,
  each mapped to a CSS width and line style, and fixes thin as solid, 1px; the other entries
  stand for the rest of such a table.
\<close>

definition BORDER_STYLES :: border_styles where
  "BORDER_STYLES =
     [(''dashDot'', None),
      (''dashed'', Some [(''style'', ''dashed'')]),
      (''dotted'', Some [(''style'', ''dotted'')]),
      (''double'', Some [(''style'', ''double'')]),
      (''hair'', None),
      (''medium'', Some [(''style'', ''solid''), (''width'', ''2px'')]),
      (''thick'', Some [(''style'', ''solid''), (''width'', ''1px'')]),
      (''thin'', Some [(''style'', ''solid''), (''width'', ''1px'')])]"

text \<open>\<open>format_cell\<close> stand-in for the examples: the text of a string or an int, else empty.\<close>

definition plain_format :: "cell \<Rightarrow> string" where
  "plain_format c = (case cell_value c of VNone \<Rightarrow> '''' | v \<Rightarrow> py_str v)"

definition bordered_cell :: cell where
  "bordered_cell =
     (plain_cell 1 1 (VStr ''x''))
       \<lparr>cell_border :=
          \<lparr>border_right = Some default_side,
           border_left = Some \<lparr>side_style = Some ''wavy'', side_color = Some (RGB ''FF000000'')\<rparr>,
           border_top = Some \<lparr>side_style = Some ''thin'', side_color = Some (RGB ''FF000000'')\<rparr>,
           border_bottom = None\<rparr>\<rparr>"

section \<open>Auxiliary notions of the proofs\<close>

text \<open>
  A direction of the border loop passes when its side is there and its style maps to a
  non-empty dict; only then the loop writes keys, all of the form \<open>border-<dir>-...\<close>.
\<close>

definition dir_passes :: "border_styles \<Rightarrow> string \<times> side option \<Rightarrow> bool" where
  "dir_passes bs d =
     (\<exists>s st. snd d = Some s \<and> border_styles_get bs (side_style s) = Some st \<and> st \<noteq> [])"

definition dir_keys :: "border_styles \<Rightarrow> string \<times> side option \<Rightarrow> string set" where
  "dir_keys bs d = (if dir_passes bs d then range (border_key (fst d)) else {})"

text \<open>
  The row loop, read off as functions: the cells a row contributes when it is not passed
  over, the test \<open>all(cell.value == None for cell in row)\<close>, the rows produced for a list of
  rows scanned in order with the flag \<open>no_found_data\<close>, and the rows of a sheet that are
  all-empty together with every row below them.
\<close>

definition emitted_row :: "'ws env \<Rightarrow> cell list \<Rightarrow> grid_cell list" where
  "emitted_row env row = map (make_cell_data env) (filter (\<lambda>c. \<not> cell_skipped env c) row)"

definition all_none :: "cell list \<Rightarrow> bool" where
  "all_none row = list_all (\<lambda>c. cell_value c = VNone) row"

fun rows_out :: "'ws env \<Rightarrow> bool \<Rightarrow> cell list list \<Rightarrow> grid_cell list list" where
  "rows_out env nf [] = []"
| "rows_out env nf (r # rs) =
     (if nf \<and> all_none r then [] # rows_out env True rs
      else emitted_row env r # rows_out env False rs)"

definition trailing_blank :: "cell list list \<Rightarrow> nat \<Rightarrow> bool" where
  "trailing_blank rows i = (\<forall>j. i \<le> j \<and> j < length rows \<longrightarrow> all_none (rows ! j))"

text \<open>
  The second pass, read off as functions: a style key is promoted when its tally exceeds one;
  what the pass makes of a cell, and what it adds to the style sheet for it.
\<close>

definition promoted :: "(styles \<times> nat) list \<Rightarrow> styles \<Rightarrow> bool" where
  "promoted cs k = (case map_of cs k of None \<Rightarrow> False | Some n \<Rightarrow> 1 < n)"

definition dedup_out :: "(styles \<times> nat) list \<Rightarrow> (styles \<times> string) list \<Rightarrow> grid_cell \<Rightarrow> grid_cell" where
  "dedup_out cs cn c =
     (if promoted cs (gc_style c)
      then (case map_of cn (gc_style c) of
              None \<Rightarrow> c
            | Some cl \<Rightarrow> c\<lparr>gc_attrs := dict_update (gc_attrs c) [(''class'', VStr cl)],
                            gc_style := []\<rparr>)
      else c)"

definition sheet_step ::
  "(styles \<times> nat) list \<Rightarrow> (styles \<times> string) list \<Rightarrow> (string \<times> styles) list \<Rightarrow> grid_cell
     \<Rightarrow> (string \<times> styles) list" where
  "sheet_step cs cn sd c =
     (if promoted cs (gc_style c)
      then (case map_of cn (gc_style c) of
              None \<Rightarrow> sd
            | Some cl \<Rightarrow> AList.update cl (gc_style c) sd)
      else sd)"

subsection \<open>Example sheets\<close>

text \<open>
  A sheet of plain cells with the given merged ranges and hidden rows, the workbook holding
  just that sheet, and the conversion with the example tables and \<open>plain_format\<close>.
\<close>

definition sheet_of :: "cell list list \<Rightarrow> cell_range list \<Rightarrow> nat list \<Rightarrow> worksheet" where
  "sheet_of rows merged hidden =
     \<lparr>ws_title = ''Sheet1'', ws_rows = rows, ws_merged_ranges = merged,
      ws_row_dimensions = map (\<lambda>r. (r, \<lparr>rd_hidden = True\<rparr>)) hidden,
      ws_data_validations = [], ws_col_list = [], ws_images_data = []\<rparr>"

definition book_of :: "worksheet \<Rightarrow> worksheet workbook" where
  "book_of ws = \<lparr>loaded_theme = None, worksheets = [ws]\<rparr>"

definition to_env :: "worksheet \<Rightarrow> error + worksheet env" where
  "to_env ws = make_env COLOR_INDEX BORDER_STYLES plain_format (book_of ws) ws"

definition to_data :: "worksheet \<Rightarrow> error + sheet_data" where
  "to_data ws = worksheet_to_data COLOR_INDEX BORDER_STYLES plain_format (book_of ws) ws"

definition leading_blank_sheet :: worksheet where
  "leading_blank_sheet =
     sheet_of [[plain_cell 1 1 VNone], [plain_cell 1 2 (VStr ''x'')], [plain_cell 1 3 VNone]] [] []"

definition hidden_row_sheet :: worksheet where
  "hidden_row_sheet =
     sheet_of [[plain_cell 1 1 (VStr ''x'')], [plain_cell 1 2 (VStr ''y'')]] [] [1]"

text \<open>
  The theme data is missing: the workbook has no theme, or the theme has no
  \<open>themeElements\<close> element, or that element has no \<open>clrScheme\<close>.
\<close>

definition theme_missing :: "'ws workbook \<Rightarrow> bool" where
  "theme_missing wb =
     (case loaded_theme wb of
        None \<Rightarrow> True
      | Some Malformed \<Rightarrow> False
      | Some (Parsed troot) \<Rightarrow>
          (case find_el troot (qname xlmns ''themeElements'') of
             None \<Rightarrow> True
           | Some themeEl \<Rightarrow> findall themeEl (qname xlmns ''clrScheme'') = []))"


section \<open>Serialisation properties\<close>

lemma sorted_filter_sort_key:
  "sorted (map f (filter P (sort_key f xs)))"
proof -
  have "sorted (map f (sort_key f xs))" by (rule sorted_sort_key)
  then show ?thesis by (rule sorted_filter)
qed

text \<open>
  Claim C8, as the code has it. Both serialisers sort the items by key. \<open>render_attrs\<close> keeps
  exactly the items with a truthy value; \<open>render_inline_styles\<close> keeps exactly the items whose
  value is not \<open>None\<close> (an empty string value is kept). A style set all of whose values are
  \<open>None\<close> serialises to the empty string.
\<close>

theorem render_serialisation_sorted_filtered:
  "(\<exists>es. render_attrs attrs = str_join '' '' (map fmt_attr es)
         \<and> sorted (map fst es) \<and> set es = {a \<in> set attrs. truthy (snd a)})
   \<and> (\<exists>es. render_inline_styles styles = str_join '';'' (map fmt_style es)
         \<and> sorted (map fst es) \<and> set es = {a \<in> set styles. snd a \<noteq> None})
   \<and> ((\<forall>a \<in> set styles. snd a = None) \<longrightarrow> render_inline_styles styles = '''')"
proof (intro conjI)
  let ?ea = "filter (\<lambda>a. truthy (snd a)) (sort_key fst attrs)"
  have "render_attrs attrs = str_join '' '' (map fmt_attr ?ea)"
    by (cases attrs) (simp_all add: render_attrs_def)
  moreover have "sorted (map fst ?ea)" by (rule sorted_filter_sort_key)
  moreover have "set ?ea = {a \<in> set attrs. truthy (snd a)}" by auto
  ultimately show "\<exists>es. render_attrs attrs = str_join '' '' (map fmt_attr es)
         \<and> sorted (map fst es) \<and> set es = {a \<in> set attrs. truthy (snd a)}"
    by blast
next
  let ?es = "filter (\<lambda>a. snd a \<noteq> None) (sort_key fst styles)"
  have "render_inline_styles styles = str_join '';'' (map fmt_style ?es)"
    by (cases styles) (simp_all add: render_inline_styles_def)
  moreover have "sorted (map fst ?es)" by (rule sorted_filter_sort_key)
  moreover have "set ?es = {a \<in> set styles. snd a \<noteq> None}" by auto
  ultimately show "\<exists>es. render_inline_styles styles = str_join '';'' (map fmt_style es)
         \<and> sorted (map fst es) \<and> set es = {a \<in> set styles. snd a \<noteq> None}"
    by blast
next
  show "(\<forall>a \<in> set styles. snd a = None) \<longrightarrow> render_inline_styles styles = ''''"
  proof
    assume h: "\<forall>a \<in> set styles. snd a = None"
    then have "filter (\<lambda>a. snd a \<noteq> None) (sort_key fst styles) = []"
      by (simp add: filter_empty_conv)
    then show "render_inline_styles styles = ''''"
      by (simp add: render_inline_styles_def)
  qed
qed

theorem render_serialisation_witness:
  "render_attrs [(''id'', VStr ''B2''), (''colspan'', VInt 2), (''rowspan'', VNone)]
     = ''colspan='' @ [CHR 0x22] @ ''2'' @ [CHR 0x22] @ '' id='' @ [CHR 0x22] @ ''B2'' @ [CHR 0x22]
   \<and> list_all (\<lambda>a. snd a = (None :: string option)) [(''color'', None), (''border'', None)]
   \<and> render_inline_styles [(''color'', None), (''border'', None)] = ''''"
proof -
  have a: "\<forall>a \<in> set [(''color'', None), (''border'', None)]. snd a = (None :: string option)"
    by simp
  have b: "render_inline_styles [(''color'', None), (''border'', None)] = ''''"
    using render_serialisation_sorted_filtered
      [of "[]" "[(''color'', None), (''border'', None)]"] a by blast
  have c: "render_attrs [(''id'', VStr ''B2''), (''colspan'', VInt 2), (''rowspan'', VNone)]
     = ''colspan='' @ [CHR 0x22] @ ''2'' @ [CHR 0x22] @ '' id='' @ [CHR 0x22] @ ''B2'' @ [CHR 0x22]"
    by code_simp
  from b c show ?thesis by simp
qed

text \<open>
  The claim as stated (falsy values, the empty string among them, are dropped from a style
  set) fails: an empty string value is serialised.
\<close>

theorem render_inline_styles_keeps_empty_value:
  "render_inline_styles [(''color'', Some '''')] = ''color: ''"
  by code_simp

section \<open>Theme colour resolution\<close>

lemma py_index_beyond: "int (length xs) \<le> i \<Longrightarrow> py_index xs i = None"
  by (simp add: py_index_def)

lemma py_index_first: "py_index (x # xs) 0 = Some x"
  by (simp add: py_index_def)

lemma py_index_Nil: "py_index [] i = None"
  by (auto simp add: py_index_def)

text \<open>
  Claim C10, as the code has it. When the palette read from the theme has \<open>n\<close> colours and
  the theme index is \<open>t \<ge> n\<close>, the lookup's \<open>IndexError\<close> is caught. For \<open>n \<ge> 1\<close> the
  result is the tinted value of the first palette entry, which is also what index \<open>0\<close>
  resolves to. For an empty palette (\<open>n = 0\<close>) the fallback lookup raises as well and the
  result is \<open>'FFFFFF'\<close>. The function is total: no exception leaves it.
\<close>

theorem theme_index_beyond_palette_uses_first:
  assumes "get_theme_colors wb = Some colors"
    and "int (length colors) \<le> t"
  shows "(\<forall>c0 rest. colors = c0 # rest \<longrightarrow>
            theme_and_tint_to_rgb wb t tint = tint_rgb c0 tint
            \<and> theme_and_tint_to_rgb wb t tint = theme_and_tint_to_rgb wb 0 tint)
       \<and> (colors = [] \<longrightarrow> theme_and_tint_to_rgb wb t tint = ''FFFFFF'')"
proof (intro conjI allI impI)
  fix c0 rest
  assume c: "colors = c0 # rest"
  have "py_index (c0 # rest) t = None"
    using assms(2) unfolding c by (rule py_index_beyond)
  then show a: "theme_and_tint_to_rgb wb t tint = tint_rgb c0 tint"
    using assms(1) by (simp add: theme_and_tint_to_rgb_def py_index_first c)
  have "theme_and_tint_to_rgb wb 0 tint = tint_rgb c0 tint"
    using assms(1) by (simp add: theme_and_tint_to_rgb_def py_index_first c)
  with a show "theme_and_tint_to_rgb wb t tint = theme_and_tint_to_rgb wb 0 tint" by simp
next
  assume "colors = []"
  with assms(1) show "theme_and_tint_to_rgb wb t tint = ''FFFFFF''"
    by (simp add: theme_and_tint_to_rgb_def py_index_Nil)
qed

subsection \<open>Evaluation on concrete inputs\<close>

lemmas fl_eval = fl_def fl_at_def fl_pack_def ilog2_def rhe_def Let_def power_int_minus
  compute_bitlen

lemmas colour_eval = rgb_to_ms_hls_def rgb_to_ms_hls_try_def int_base16_def is_hex_char_def
  hex_digit_val_def int_truediv_def finite_only_def rgb_to_hls_def fmax_def fmin_def fsub_def
  fle_def int_to_float_def RGBMAX_def HLSMAX_def white_hls_def tint_rgb_def tint_luminance_def
  ms_hls_to_rgb_def hls_to_rgb_def colorsys_v_def ONE_THIRD_def ONE_SIXTH_def TWO_THIRD_def
  rgb_to_hex_def fmt_02x_def hex_char_def upper_char_def

lemmas theme_eval = get_theme_colors_def find_el_def findall_def qname_def
  slot_colors_def theme_slots_def dict_get_def srgb_slot_def sys_slot_def wb_of_scheme_def


lemma lt1_only_wb_colors:
  "get_theme_colors (lt1_only_wb c) =
     Some [c, ''FFFFFF'', ''FFFFFF'', ''FFFFFF'', ''FFFFFF'', ''FFFFFF'', ''FFFFFF'', ''FFFFFF'',
           ''FFFFFF'', ''FFFFFF'']"
  by (simp add: theme_eval lt1_only_wb_def)

lemma tint_rgb_dark_blue: "tint_rgb ''1F497D'' (Fin 0) = ''1F497C''"
  by (simp add: fl_eval colour_eval)


lemma tint_rgb_white_darker: "tint_rgb ''FFFFFF'' (Fin (- 1 / 2)) = ''808080''"
  by (simp add: fl_eval colour_eval)

theorem theme_index_beyond_palette_witness:
  "get_theme_colors (lt1_only_wb ''1F497D'' :: unit workbook) = Some (''1F497D'' # replicate 9 ''FFFFFF'')
   \<and> int (length (''1F497D'' # replicate 9 ''FFFFFF'')) \<le> 10
   \<and> theme_and_tint_to_rgb (lt1_only_wb ''1F497D'' :: unit workbook) 10 (Fin 0) = ''1F497C''
   \<and> theme_and_tint_to_rgb (lt1_only_wb ''1F497D'' :: unit workbook) 10 (Fin 0)
       = theme_and_tint_to_rgb (lt1_only_wb ''1F497D'' :: unit workbook) 0 (Fin 0)"
proof -
  have c: "get_theme_colors (lt1_only_wb ''1F497D'' :: unit workbook) = Some (''1F497D'' # replicate 9 ''FFFFFF'')"
    by (simp add: lt1_only_wb_colors numeral_eq_Suc)
  have n: "int (length (''1F497D'' # replicate 9 ''FFFFFF'')) \<le> 10"
    by simp
  from theme_index_beyond_palette_uses_first [OF c n, of "Fin 0"]
  have r: "theme_and_tint_to_rgb (lt1_only_wb ''1F497D'' :: unit workbook) 10 (Fin 0)
        = tint_rgb ''1F497D'' (Fin 0)
      \<and> theme_and_tint_to_rgb (lt1_only_wb ''1F497D'' :: unit workbook) 10 (Fin 0)
        = theme_and_tint_to_rgb (lt1_only_wb ''1F497D'' :: unit workbook) 0 (Fin 0)"
    by blast
  from r have "theme_and_tint_to_rgb (lt1_only_wb ''1F497D'' :: unit workbook) 10 (Fin 0)
      = tint_rgb ''1F497D'' (Fin 0)"
    by (rule conjunct1)
  also have "\<dots> = ''1F497C''" by (rule tint_rgb_dark_blue)
  finally have r1: "theme_and_tint_to_rgb (lt1_only_wb ''1F497D'' :: unit workbook) 10 (Fin 0) = ''1F497C''" .
  from r have r2: "theme_and_tint_to_rgb (lt1_only_wb ''1F497D'' :: unit workbook) 10 (Fin 0)
      = theme_and_tint_to_rgb (lt1_only_wb ''1F497D'' :: unit workbook) 0 (Fin 0)"
    by (rule conjunct2)
  show ?thesis by (rule conjI [OF c conjI [OF n conjI [OF r1 r2]]])
qed

text \<open>
  The claim as stated (for every palette size, an index beyond the palette resolves to the
  tinted first entry, not to white) fails for the empty palette: a colour scheme whose ten
  slots have no child element yields no colour, and every index then resolves to
  \<open>'FFFFFF'\<close>, whatever the tint.
\<close>

theorem empty_palette_resolves_to_white:
  "get_theme_colors (empty_slots_wb :: unit workbook) = Some []
   \<and> theme_and_tint_to_rgb (empty_slots_wb :: unit workbook) 0 (Fin (- 1 / 2)) = ''FFFFFF''
   \<and> theme_and_tint_to_rgb (empty_slots_wb :: unit workbook) 3 (Fin 0) = ''FFFFFF''"
  by (simp add: theme_and_tint_to_rgb_def py_index_Nil theme_eval empty_slots_wb_def)

section \<open>Indexed colours\<close>

lemma py_index_below: "i < - int (length xs) \<Longrightarrow> py_index xs i = None"
  by (simp add: py_index_def)

text \<open>
  Claim C4, as the code has it. For a palette of \<open>n\<close> entries (\<open>n = 64\<close> for openpyxl's), an
  indexed colour whose index \<open>i\<close> makes the lookup raise \<open>IndexError\<close>, that is \<open>n \<le> i\<close>
  (so 64 and 65) or \<open>i < - n\<close>, or whose palette entry is not an aRGB text, resolves to the
  fixed fallback \<open>"00000000"\<close>, which is returned as the colour \<open>#000000\<close> (not as \<open>None\<close>);
  no exception is raised. (An index from \<open>- n\<close> to \<open>- 1\<close> counts from the end of the palette
  and resolves to the entry found there.)
\<close>

theorem indexed_fallback_is_black:
  assumes "int (length ci) \<le> i \<or> i < - int (length ci)
           \<or> (\<exists>v. py_index ci i = Some v \<and> \<not> aRGB_match v)"
  shows "normalize_color ci wb (Indexed i) = Some ''#000000''"
proof -
  have "indexed_rgb ci i = ''00000000''"
    using assms by (auto simp: indexed_rgb_def py_index_beyond py_index_below)
  then show ?thesis by (simp add: hash_rgb_def)
qed

theorem indexed_fallback_witness:
  "int (length COLOR_INDEX) \<le> 64
   \<and> normalize_color COLOR_INDEX (no_theme_wb :: unit workbook) (Indexed 64) = Some ''#000000''"
proof -
  have n: "int (length COLOR_INDEX) \<le> 64" by (simp add: COLOR_INDEX_def)
  then have "int (length COLOR_INDEX) \<le> 64 \<or> 64 < - int (length COLOR_INDEX)
      \<or> (\<exists>v. py_index COLOR_INDEX 64 = Some v \<and> \<not> aRGB_match v)" by simp
  from indexed_fallback_is_black [OF this] n show ?thesis by simp
qed

text \<open>
  The claim as stated (the reserved index resolves to no colour at all) fails: index 65 of
  the 64-entry palette resolves to black.
\<close>

theorem indexed_65_is_black_not_none:
  "normalize_color COLOR_INDEX (no_theme_wb :: unit workbook) (Indexed 65) = Some ''#000000''"
  by (simp add: indexed_rgb_def py_index_def COLOR_INDEX_def hash_rgb_def)

text \<open>
  A negative index down to \<open>- 64\<close> does not raise: it counts from the end of the palette, so
  index \<open>- 1\<close> resolves to the last entry.
\<close>

lemma indexed_negative_index_wraps:
  "normalize_color COLOR_INDEX (no_theme_wb :: unit workbook) (Indexed (- 1)) = Some ''#333333''"
  by (simp add: indexed_rgb_def py_index_def COLOR_INDEX_def hash_rgb_def aRGB_match_def
      hex_6_or_8_def is_hex_char_def)

section \<open>Border styles\<close>

lemma keys_foldl_update:
  "fst ` set (foldl (\<lambda>h kv. AList.update (f kv) (g kv) h) h0 xs) = fst ` set h0 \<union> f ` set xs"
  by (induction xs arbitrary: h0) (auto simp: dom_update)

lemma keys_border_dir_step:
  "fst ` set (border_dir_step ci bs wb h d) \<subseteq> fst ` set h \<union> dir_keys bs d"
  by (auto simp: border_dir_step_def dir_passes_def dir_keys_def Let_def keys_foldl_update
      dom_update split: option.splits)

lemma keys_border_fold:
  "fst ` set (foldl (border_dir_step ci bs wb) h ds) \<subseteq> fst ` set h \<union> (\<Union>d \<in> set ds. dir_keys bs d)"
proof (induction ds arbitrary: h)
  case Nil
  then show ?case by simp
next
  case (Cons d ds)
  let ?h' = "border_dir_step ci bs wb h d"
  let ?U = "\<Union>d \<in> set ds. dir_keys bs d"
  have a: "fst ` set (foldl (border_dir_step ci bs wb) ?h' ds) \<subseteq> fst ` set ?h' \<union> ?U"
    by (rule Cons.IH)
  have b: "fst ` set ?h' \<subseteq> fst ` set h \<union> dir_keys bs d"
    by (rule keys_border_dir_step)
  have c: "fst ` set ?h' \<union> ?U \<subseteq> fst ` set h \<union> (dir_keys bs d \<union> ?U)"
    using b by (rule_tac Un_least) (rule subset_trans, assumption, rule Un_mono,
      rule subset_refl, rule Un_upper1, rule subset_trans [OF Un_upper2 Un_upper2])
  have e: "(\<Union>d \<in> set (d # ds). dir_keys bs d) = dir_keys bs d \<union> ?U" by simp
  show ?case
    unfolding foldl.simps e by (rule subset_trans [OF a c])
qed

lemma border_prefix_same_dir:
  assumes "a \<in> {''right'', ''left'', ''top'', ''bottom''}"
    and "b \<in> {''right'', ''left'', ''top'', ''bottom''}"
    and "prefix (''border-'' @ a @ ''-'') (border_key b k)"
  shows "a = b"
  using assms by (auto simp: border_key_def)

text \<open>
  Claim C9. For an edge of a cell whose side is missing, whose style name is \<open>None\<close>, or whose
  style name is no key of the border style table, the lookup yields \<open>None\<close> and the resulting
  style dict has no \<open>border-<edge>-...\<close> property at all: no default border stands in.
\<close>

theorem no_border_for_unknown_style:
  assumes d: "(name, sd) \<in> set (border_dirs (cell_border c))"
    and u: "sd = None \<or> (\<exists>s. sd = Some s \<and>
              (side_style s = None \<or> (\<exists>n. side_style s = Some n \<and> map_of bs n = None)))"
  shows "\<forall>k \<in> fst ` set (get_border_style_from_cell ci bs wb c).
           \<not> prefix (''border-'' @ name @ ''-'') k"
proof
  fix k
  assume k: "k \<in> fst ` set (get_border_style_from_cell ci bs wb c)"
  show "\<not> prefix (''border-'' @ name @ ''-'') k"
  proof
    assume p: "prefix (''border-'' @ name @ ''-'') k"
    have "fst ` set (get_border_style_from_cell ci bs wb c)
        \<subseteq> fst ` set ([] :: styles) \<union> (\<Union>d \<in> set (border_dirs (cell_border c)). dir_keys bs d)"
      unfolding get_border_style_from_cell_def get_border_style_def by (rule keys_border_fold)
    with k have "k \<in> (\<Union>d \<in> set (border_dirs (cell_border c)). dir_keys bs d)"
      by auto
    then obtain d' where d': "d' \<in> set (border_dirs (cell_border c))" and kd: "k \<in> dir_keys bs d'"
      by (rule UN_E)
    from kd have pass: "dir_passes bs d'" and "k \<in> range (border_key (fst d'))"
      by (simp_all add: dir_keys_def split: if_splits)
    then obtain k' where kk: "k = border_key (fst d') k'" by (auto simp: image_iff)
    from d have n1: "name \<in> {''right'', ''left'', ''top'', ''bottom''}"
      by (auto simp: border_dirs_def)
    from d' have n2: "fst d' \<in> {''right'', ''left'', ''top'', ''bottom''}"
      by (auto simp: border_dirs_def)
    from p kk have "prefix (''border-'' @ name @ ''-'') (border_key (fst d') k')" by simp
    from border_prefix_same_dir [OF n1 n2 this] have "name = fst d'" .
    with d d' have "snd d' = sd" by (auto simp: border_dirs_def)
    with pass u show False
      by (auto simp: dir_passes_def border_styles_get_def)
  qed
qed

lemmas border_eval = get_border_style_from_cell_def get_border_style_def border_dirs_def
  border_dir_step_def border_styles_get_def BORDER_STYLES_def border_key_def hash_rgb_def
  plain_cell_def default_border_def default_side_def

lemma bordered_cell_styles:
  "get_border_style_from_cell COLOR_INDEX BORDER_STYLES (no_theme_wb :: unit workbook) bordered_cell
     = [(''border-top-style'', Some ''solid''), (''border-top-width'', Some ''1px''),
        (''border-top-color'', Some ''#000000'')]"
  by (simp add: border_eval bordered_cell_def)

theorem no_border_for_unknown_style_witness:
  "(''left'', Some \<lparr>side_style = Some ''wavy'', side_color = Some (RGB ''FF000000'')\<rparr>)
      \<in> set (border_dirs (cell_border bordered_cell))
   \<and> map_of BORDER_STYLES ''wavy'' = None
   \<and> list_all (\<lambda>k. \<not> prefix ''border-left-'' k)
        (map fst (get_border_style_from_cell COLOR_INDEX BORDER_STYLES
                    (no_theme_wb :: unit workbook) bordered_cell))
   \<and> map fst (get_border_style_from_cell COLOR_INDEX BORDER_STYLES
                 (no_theme_wb :: unit workbook) bordered_cell)
       = [''border-top-style'', ''border-top-width'', ''border-top-color'']"
proof -
  let ?sd = "Some \<lparr>side_style = Some ''wavy'', side_color = Some (RGB ''FF000000'')\<rparr>"
  have d: "(''left'', ?sd) \<in> set (border_dirs (cell_border bordered_cell))"
    by (simp add: border_dirs_def bordered_cell_def)
  have m: "map_of BORDER_STYLES ''wavy'' = None"
    by (simp add: BORDER_STYLES_def)
  then have u: "?sd = None \<or> (\<exists>s. ?sd = Some s \<and>
      (side_style s = None \<or> (\<exists>n. side_style s = Some n \<and> map_of BORDER_STYLES n = None)))"
    by simp
  have "\<forall>k \<in> fst ` set (get_border_style_from_cell COLOR_INDEX BORDER_STYLES
                            (no_theme_wb :: unit workbook) bordered_cell).
          \<not> prefix (''border-'' @ ''left'' @ ''-'') k"
    by (rule no_border_for_unknown_style [OF d u])
  then have l: "list_all (\<lambda>k. \<not> prefix ''border-left-'' k)
        (map fst (get_border_style_from_cell COLOR_INDEX BORDER_STYLES
                    (no_theme_wb :: unit workbook) bordered_cell))"
    by (simp add: list_all_iff)
  have e: "map fst (get_border_style_from_cell COLOR_INDEX BORDER_STYLES
                 (no_theme_wb :: unit workbook) bordered_cell)
       = [''border-top-style'', ''border-top-width'', ''border-top-color'']"
    by (simp add: bordered_cell_styles)
  show ?thesis by (rule conjI [OF d conjI [OF m conjI [OF l e]]])
qed

section \<open>The row loop\<close>

lemma cell_loop_data_row:
  "length ns = length row \<Longrightarrow>
   fst (foldl (cell_step env ri) (dr, cs, cn) (zip ns row)) = dr @ emitted_row env row"
proof (induction ns row arbitrary: dr cs cn rule: list_induct2)
  case Nil
  then show ?case by (simp add: emitted_row_def)
next
  case (Cons n ns c row)
  show ?case
  proof (cases "cell_skipped env c")
    case True
    then have "cell_step env ri (dr, cs, cn) (n, c) = (dr, cs, cn)"
      by (simp add: cell_step_def)
    with Cons.IH [of dr cs cn] True show ?thesis
      by (simp add: emitted_row_def)
  next
    case False
    then obtain cs' cn' where
      "cell_step env ri (dr, cs, cn) (n, c) = (dr @ [make_cell_data env c], cs', cn')"
      by (simp add: cell_step_def Let_def)
    with Cons.IH [of "dr @ [make_cell_data env c]" cs' cn'] False show ?thesis
      by (simp add: emitted_row_def)
  qed
qed

lemma row_step_fold:
  "\<exists>cs cn. foldl (cell_step env n) ([], cs0, cn0) (enumerate 0 r) = (emitted_row env r, cs, cn)"
proof -
  obtain dr cs cn where f: "foldl (cell_step env n) ([], cs0, cn0) (enumerate 0 r) = (dr, cs, cn)"
    by (cases "foldl (cell_step env n) ([], cs0, cn0) (enumerate 0 r)") auto
  have "fst (foldl (cell_step env n) ([], cs0, cn0) (zip [0 ..< 0 + length r] r))
      = [] @ emitted_row env r"
    by (rule cell_loop_data_row) simp
  with f have "dr = emitted_row env r"
    by (simp add: enumerate_eq_zip)
  with f show ?thesis by simp
qed

lemma row_step_data_list:
  "st_data_list (row_step env st (n, r)) =
     (if st_no_found_data st \<and> all_none r then [] else emitted_row env r) # st_data_list st"
  using row_step_fold [of env n "st_cell_styles st" "st_cell_classnames st" r]
  by (auto simp: row_step_def all_none_def)

lemma row_step_no_found:
  "st_no_found_data (row_step env st (n, r)) = (st_no_found_data st \<and> all_none r)"
  using row_step_fold [of env n "st_cell_styles st" "st_cell_classnames st" r]
  by (auto simp: row_step_def all_none_def)

lemma row_loop_data_list:
  "length ns = length rs \<Longrightarrow>
   st_data_list (foldl (row_step env) st (zip ns rs))
     = rev (rows_out env (st_no_found_data st) rs) @ st_data_list st"
proof (induction ns rs arbitrary: st rule: list_induct2)
  case Nil
  then show ?case by simp
next
  case (Cons n ns r rs)
  note ih = Cons.IH [of "row_step env st (n, r)"]
  show ?case
  proof (cases "st_no_found_data st \<and> all_none r")
    case True
    with ih show ?thesis
      by (simp add: row_step_data_list row_step_no_found)
  next
    case False
    with ih show ?thesis
      by (auto simp: row_step_data_list row_step_no_found)
  qed
qed

lemma build_rows_data_list:
  "st_data_list (build_rows env) = rev (rows_out env True (rev (ws_rows (env_ws env))))"
proof -
  let ?rs = "rev (ws_rows (env_ws env))"
  let ?st = "\<lparr>st_data_list = [], st_cell_styles = [], st_cell_classnames = [],
             st_no_found_data = True\<rparr>"
  have "length [0 ..< 0 + length ?rs] = length ?rs" by simp
  from row_loop_data_list [OF this, of env ?st] show ?thesis
    by (simp add: build_rows_def enumerate_eq_zip)
qed

lemma length_rows_out: "length (rows_out env nf rs) = length rs"
  by (induction rs arbitrary: nf) auto

lemma rows_out_False: "rows_out env False rs = map (emitted_row env) rs"
  by (induction rs) auto

lemma rows_out_nth:
  "k < length rs \<Longrightarrow>
   rows_out env True rs ! k = (if \<forall>j \<le> k. all_none (rs ! j) then [] else emitted_row env (rs ! k))"
proof (induction rs arbitrary: k)
  case Nil
  then show ?case by simp
next
  case (Cons r rs)
  show ?case
  proof (cases k)
    case 0
    then show ?thesis by simp
  next
    case (Suc k')
    with Cons.prems have k': "k' < length rs" by simp
    show ?thesis
    proof (cases "all_none r")
      case True
      have eq: "(\<forall>j \<le> Suc k'. all_none ((r # rs) ! j)) = (\<forall>j \<le> k'. all_none (rs ! j))"
      proof
        assume a: "\<forall>j \<le> Suc k'. all_none ((r # rs) ! j)"
        show "\<forall>j \<le> k'. all_none (rs ! j)"
        proof (intro allI impI)
          fix j assume "j \<le> k'"
          then have "Suc j \<le> Suc k'" by simp
          with a have "all_none ((r # rs) ! Suc j)" by blast
          then show "all_none (rs ! j)" by simp
        qed
      next
        assume a: "\<forall>j \<le> k'. all_none (rs ! j)"
        show "\<forall>j \<le> Suc k'. all_none ((r # rs) ! j)"
        proof (intro allI impI)
          fix j assume j: "j \<le> Suc k'"
          show "all_none ((r # rs) ! j)"
          proof (cases j)
            case 0
            with True show ?thesis by simp
          next
            case (Suc j')
            with j a show ?thesis by simp
          qed
        qed
      qed
      from True Suc have "rows_out env True (r # rs) ! k = rows_out env True rs ! k'"
        by simp
      also have "\<dots> = (if \<forall>j \<le> k'. all_none (rs ! j) then [] else emitted_row env (rs ! k'))"
        by (rule Cons.IH [OF k'])
      also have "\<dots> = (if \<forall>j \<le> Suc k'. all_none ((r # rs) ! j) then []
                        else emitted_row env ((r # rs) ! Suc k'))"
        by (simp only: eq nth_Cons_Suc)
      finally show ?thesis unfolding Suc .
    next
      case False
      then have neg: "(\<forall>j \<le> k. all_none ((r # rs) ! j)) = False"
        by (auto intro: exI [of _ 0])
      from False Suc k' have "rows_out env True (r # rs) ! k = emitted_row env ((r # rs) ! k)"
        by (simp add: rows_out_False)
      then show ?thesis by (simp only: neg if_False)
    qed
  qed
qed

lemma rev_nth_back: "j < length xs \<Longrightarrow> rev xs ! (length xs - Suc j) = xs ! j"
proof -
  assume j: "j < length xs"
  then have "length xs - Suc j < length xs" by arith
  then have "rev xs ! (length xs - Suc j) = xs ! (length xs - Suc (length xs - Suc j))"
    by (rule rev_nth)
  moreover from j have "length xs - Suc (length xs - Suc j) = j" by arith
  ultimately show ?thesis by simp
qed

lemma build_rows_nth:
  assumes "i < length (ws_rows (env_ws env))"
  shows "st_data_list (build_rows env) ! i =
     (if trailing_blank (ws_rows (env_ws env)) i then []
      else emitted_row env (ws_rows (env_ws env) ! i))"
proof -
  let ?rows = "ws_rows (env_ws env)"
  let ?n = "length ?rows"
  let ?k = "?n - Suc i"
  have k: "?k < length (rev ?rows)" using assms by simp
  have "st_data_list (build_rows env) ! i = rows_out env True (rev ?rows) ! ?k"
    using assms by (simp add: build_rows_data_list rev_nth length_rows_out)
  also have "\<dots> = (if \<forall>j \<le> ?k. all_none (rev ?rows ! j) then []
                    else emitted_row env (rev ?rows ! ?k))"
    by (rule rows_out_nth [OF k])
  also have "rev ?rows ! ?k = ?rows ! i"
    using assms by (simp add: rev_nth)
  also have "(\<forall>j \<le> ?k. all_none (rev ?rows ! j)) = trailing_blank ?rows i"
  proof
    assume a: "\<forall>j \<le> ?k. all_none (rev ?rows ! j)"
    show "trailing_blank ?rows i"
      unfolding trailing_blank_def
    proof (intro allI impI)
      fix j assume j: "i \<le> j \<and> j < ?n"
      then have "?n - Suc j \<le> ?k" by arith
      with a have "all_none (rev ?rows ! (?n - Suc j))" by blast
      moreover have "rev ?rows ! (?n - Suc j) = ?rows ! j"
        using j by (simp add: rev_nth_back)
      ultimately show "all_none (?rows ! j)" by simp
    qed
  next
    assume a: "trailing_blank ?rows i"
    show "\<forall>j \<le> ?k. all_none (rev ?rows ! j)"
    proof (intro allI impI)
      fix j assume j: "j \<le> ?k"
      with assms have "i \<le> ?n - Suc j \<and> ?n - Suc j < ?n" by arith
      with a have "all_none (?rows ! (?n - Suc j))"
        unfolding trailing_blank_def by blast
      moreover have "rev ?rows ! j = ?rows ! (?n - Suc j)"
        using j assms by (simp add: rev_nth)
      ultimately show "all_none (rev ?rows ! j)" by simp
    qed
  qed
  finally show ?thesis .
qed

lemma build_rows_length:
  "length (st_data_list (build_rows env)) = length (ws_rows (env_ws env))"
  by (simp add: build_rows_data_list length_rows_out)

section \<open>The second pass and the returned rows\<close>

lemma dedup_cell_Inr:
  "dedup_cell cs cn c sd = Inr (c', sd') \<Longrightarrow> c' = dedup_out cs cn c \<and> sd' = sheet_step cs cn sd c"
  by (auto simp: dedup_cell_def dedup_out_def sheet_step_def promoted_def
      split: option.splits if_splits)

lemma dedup_row_Inr:
  "dedup_row cs cn r sd = Inr (r', sd') \<Longrightarrow>
   r' = map (dedup_out cs cn) r \<and> sd' = foldl (sheet_step cs cn) sd r"
proof (induction r arbitrary: sd r' sd')
  case Nil
  then show ?case by simp
next
  case (Cons c r)
  from Cons.prems obtain c1 sd1 r1 sd2 where
    a: "dedup_cell cs cn c sd = Inr (c1, sd1)" and
    b: "dedup_row cs cn r sd1 = Inr (r1, sd2)" and
    c: "r' = c1 # r1" "sd' = sd2"
    by (auto split: sum.splits prod.splits)
  from dedup_cell_Inr [OF a] Cons.IH [OF b] c show ?case by simp
qed

lemma dedup_rows_Inr:
  "dedup_rows cs cn rs sd = Inr (rs', sd') \<Longrightarrow>
   rs' = map (map (dedup_out cs cn)) rs \<and> sd' = foldl (sheet_step cs cn) sd (concat rs)"
proof (induction rs arbitrary: sd rs' sd')
  case Nil
  then show ?case by simp
next
  case (Cons r rs)
  from Cons.prems obtain r1 sd1 rs1 sd2 where
    a: "dedup_row cs cn r sd = Inr (r1, sd1)" and
    b: "dedup_rows cs cn rs sd1 = Inr (rs1, sd2)" and
    c: "rs' = r1 # rs1" "sd' = sd2"
    by (auto split: sum.splits prod.splits)
  from dedup_row_Inr [OF a] Cons.IH [OF b] c show ?case by simp
qed

lemma make_env_ws: "make_env ci bs fmt wb ws = Inr env \<Longrightarrow> env_ws env = ws"
  by (auto simp: make_env_def split: option.splits sum.splits prod.splits)

lemma worksheet_to_data_rows:
  assumes e: "make_env ci bs fmt wb ws = Inr env"
    and d: "worksheet_to_data ci bs fmt wb ws = Inr data"
  shows "sd_rows data = map (map (dedup_out (st_cell_styles (build_rows env))
                                     (st_cell_classnames (build_rows env))))
                            (st_data_list (build_rows env))"
    and "sd_styles data = foldl (sheet_step (st_cell_styles (build_rows env))
                                     (st_cell_classnames (build_rows env))) []
                            (concat (st_data_list (build_rows env)))"
    and "sd_images data = ws_images_data ws" and "sd_cols data = ws_col_list ws"
proof -
  let ?st = "build_rows env"
  from d e obtain rows sty where
    r: "dedup_rows (st_cell_styles ?st) (st_cell_classnames ?st) (st_data_list ?st) [] = Inr (rows, sty)"
    and dd: "data = \<lparr>sd_title = ws_title ws, sd_rows = rows, sd_cols = ws_col_list ws,
                    sd_images = ws_images_data ws, sd_styles = sty\<rparr>"
    by (auto simp: worksheet_to_data_def Let_def split: sum.splits prod.splits)
  from dedup_rows_Inr [OF r] dd
  show "sd_rows data = map (map (dedup_out (st_cell_styles ?st) (st_cell_classnames ?st)))
                            (st_data_list ?st)"
    and "sd_styles data = foldl (sheet_step (st_cell_styles ?st) (st_cell_classnames ?st)) []
                            (concat (st_data_list ?st))"
    and "sd_images data = ws_images_data ws" and "sd_cols data = ws_col_list ws"
    by simp_all
qed

lemma dedup_out_fields:
  "gc_column (dedup_out cs cn c) = gc_column c"
  "gc_row (dedup_out cs cn c) = gc_row c"
  "gc_value (dedup_out cs cn c) = gc_value c"
  by (simp_all add: dedup_out_def split: option.splits)

lemma make_cell_data_fields:
  "gc_column (make_cell_data env c) = cell_column c"
  "gc_row (make_cell_data env c) = cell_row c"
  "gc_value (make_cell_data env c) = cell_value c"
  by (simp_all add: make_cell_data_def Let_def)

lemma empty_tr: "render_row no_lineno data (i, []) = ''<tr>'' @ [CHR 0x0A] @ ''</tr>''"
  by (simp add: render_row_def no_lineno_def)

lemma table_rows_nth:
  "i < length (sd_rows data) \<Longrightarrow>
   table_rows lineno data ! i = render_row lineno data (i, sd_rows data ! i)"
  by (simp add: table_rows_def nth_enumerate_eq)

lemma table_rows_length: "length (table_rows lineno data) = length (sd_rows data)"
  by (simp add: table_rows_def)

text \<open>
  Claim C3, as the code has it. The rows are scanned bottom-up, so a row is passed over only
  while it is a trailing all-empty row: it is all-empty and so is every row below it. Such a
  row keeps its (empty) row in the model and is rendered as an empty \<open><tr>\<close>. Every other
  row, also an all-empty one above or between non-empty rows, is emitted with one cell for
  each of its cells that is neither an excluded merge member nor in a hidden row. The model
  and the table have one row for every row of the sheet.
\<close>

theorem rows_passed_over_only_while_trailing:
  assumes e: "make_env ci bs fmt wb ws = Inr env"
    and d: "worksheet_to_data ci bs fmt wb ws = Inr data"
    and i: "i < length (ws_rows ws)"
  shows "length (sd_rows data) = length (ws_rows ws)
       \<and> length (table_rows no_lineno data) = length (ws_rows ws)
       \<and> (trailing_blank (ws_rows ws) i \<longrightarrow>
            sd_rows data ! i = [] \<and> table_rows no_lineno data ! i = ''<tr>'' @ [CHR 0x0A] @ ''</tr>'')
       \<and> (\<not> trailing_blank (ws_rows ws) i \<longrightarrow>
            map (\<lambda>c. (gc_column c, gc_row c, gc_value c)) (sd_rows data ! i)
              = map (\<lambda>c. (cell_column c, cell_row c, cell_value c))
                    (filter (\<lambda>c. \<not> cell_skipped env c) (ws_rows ws ! i)))"
proof -
  let ?st = "build_rows env"
  let ?f = "dedup_out (st_cell_styles ?st) (st_cell_classnames ?st)"
  note ws = make_env_ws [OF e]
  have rows: "sd_rows data = map (map ?f) (st_data_list ?st)"
    by (rule worksheet_to_data_rows(1) [OF e d])
  have len: "length (sd_rows data) = length (ws_rows ws)"
    by (simp add: rows build_rows_length ws)
  have nth: "sd_rows data ! i = map ?f (st_data_list ?st ! i)"
    using i by (simp add: rows build_rows_length ws)
  have bn: "st_data_list ?st ! i =
     (if trailing_blank (ws_rows ws) i then [] else emitted_row env (ws_rows ws ! i))"
    using build_rows_nth [of i env] i by (simp add: ws)
  have t: "trailing_blank (ws_rows ws) i \<longrightarrow>
            sd_rows data ! i = [] \<and> table_rows no_lineno data ! i = ''<tr>'' @ [CHR 0x0A] @ ''</tr>''"
  proof
    assume tb: "trailing_blank (ws_rows ws) i"
    with nth bn have z: "sd_rows data ! i = []" by simp
    from i len have "table_rows no_lineno data ! i = render_row no_lineno data (i, sd_rows data ! i)"
      by (simp add: table_rows_nth)
    with z show "sd_rows data ! i = [] \<and> table_rows no_lineno data ! i = ''<tr>'' @ [CHR 0x0A] @ ''</tr>''"
      by (simp add: empty_tr)
  qed
  have n: "\<not> trailing_blank (ws_rows ws) i \<longrightarrow>
            map (\<lambda>c. (gc_column c, gc_row c, gc_value c)) (sd_rows data ! i)
              = map (\<lambda>c. (cell_column c, cell_row c, cell_value c))
                    (filter (\<lambda>c. \<not> cell_skipped env c) (ws_rows ws ! i))"
  proof
    assume "\<not> trailing_blank (ws_rows ws) i"
    with nth bn have "sd_rows data ! i = map ?f (emitted_row env (ws_rows ws ! i))" by simp
    then show "map (\<lambda>c. (gc_column c, gc_row c, gc_value c)) (sd_rows data ! i)
              = map (\<lambda>c. (cell_column c, cell_row c, cell_value c))
                    (filter (\<lambda>c. \<not> cell_skipped env c) (ws_rows ws ! i))"
      by (simp add: emitted_row_def dedup_out_fields make_cell_data_fields comp_def)
  qed
  from len t n show ?thesis by (simp add: table_rows_length)
qed

text \<open>
  Claim C6, as the code has it. All cells of a hidden row are skipped, but the row itself
  stays in the model as an empty row and is rendered as an empty \<open><tr>\<close>: the model and the
  table still have one row for every row of the sheet.
\<close>

theorem hidden_row_keeps_empty_row:
  assumes e: "make_env ci bs fmt wb ws = Inr env"
    and d: "worksheet_to_data ci bs fmt wb ws = Inr data"
    and i: "i < length (ws_rows ws)"
    and h: "\<forall>c \<in> set (ws_rows ws ! i). row_hidden ws (cell_row c)"
  shows "length (sd_rows data) = length (ws_rows ws)
       \<and> length (table_rows no_lineno data) = length (ws_rows ws)
       \<and> sd_rows data ! i = []
       \<and> table_rows no_lineno data ! i = ''<tr>'' @ [CHR 0x0A] @ ''</tr>''"
proof -
  let ?st = "build_rows env"
  let ?f = "dedup_out (st_cell_styles ?st) (st_cell_classnames ?st)"
  note ws = make_env_ws [OF e]
  have rows: "sd_rows data = map (map ?f) (st_data_list ?st)"
    by (rule worksheet_to_data_rows(1) [OF e d])
  have len: "length (sd_rows data) = length (ws_rows ws)"
    by (simp add: rows build_rows_length ws)
  have nth: "sd_rows data ! i = map ?f (st_data_list ?st ! i)"
    using i by (simp add: rows build_rows_length ws)
  have bn: "st_data_list ?st ! i =
     (if trailing_blank (ws_rows ws) i then [] else emitted_row env (ws_rows ws ! i))"
    using build_rows_nth [of i env] i by (simp add: ws)
  from h have "filter (\<lambda>c. \<not> cell_skipped env c) (ws_rows ws ! i) = []"
    by (simp add: filter_empty_conv cell_skipped_def ws)
  then have "emitted_row env (ws_rows ws ! i) = []" by (simp add: emitted_row_def)
  with nth bn have z: "sd_rows data ! i = []" by simp
  from i len have "table_rows no_lineno data ! i = render_row no_lineno data (i, sd_rows data ! i)"
    by (simp add: table_rows_nth)
  with z len show ?thesis by (simp add: empty_tr table_rows_length)
qed

lemma no_merge_env:
  "to_env (sheet_of rows [] hidden) =
     Inr \<lparr>env_ci = COLOR_INDEX, env_bs = BORDER_STYLES, env_format_cell = plain_format,
          env_wb = book_of (sheet_of rows [] hidden), env_ws = sheet_of rows [] hidden,
          env_ws_id = 1, env_merged = [], env_excluded = {}\<rparr>"
  by (simp add: to_env_def make_env_def book_of_def sheet_of_def)

lemma leading_blank_data_ok:
  "(case to_data leading_blank_sheet of Inl e \<Rightarrow> False | Inr d \<Rightarrow> True)"
  by code_simp

theorem rows_passed_over_witness:
  "(case to_data leading_blank_sheet of
      Inl e \<Rightarrow> False
    | Inr d \<Rightarrow>
        length (sd_rows d) = 3 \<and> length (table_rows no_lineno d) = 3
        \<and> map (\<lambda>c. (gc_column c, gc_row c, gc_value c)) (sd_rows d ! 0) = [(1, 1, VNone)]
        \<and> sd_rows d ! 2 = [] \<and> table_rows no_lineno d ! 2 = ''<tr>'' @ [CHR 0x0A] @ ''</tr>'')"
proof -
  let ?ws = "leading_blank_sheet"
  let ?env = "\<lparr>env_ci = COLOR_INDEX, env_bs = BORDER_STYLES, env_format_cell = plain_format,
          env_wb = book_of ?ws, env_ws = ?ws,
          env_ws_id = 1, env_merged = [], env_excluded = {}\<rparr>"
  from leading_blank_data_ok obtain d where d: "to_data ?ws = Inr d"
    by (cases "to_data ?ws") auto
  have e: "make_env COLOR_INDEX BORDER_STYLES plain_format (book_of ?ws) ?ws = Inr ?env"
    using no_merge_env [of "ws_rows ?ws" "[]"]
    by (simp add: to_env_def leading_blank_sheet_def sheet_of_def)
  have d': "worksheet_to_data COLOR_INDEX BORDER_STYLES plain_format (book_of ?ws) ?ws = Inr d"
    using d by (simp add: to_data_def)
  have rows: "ws_rows ?ws = [[plain_cell 1 1 VNone], [plain_cell 1 2 (VStr ''x'')], [plain_cell 1 3 VNone]]"
    by (simp add: leading_blank_sheet_def sheet_of_def)
  have t2: "trailing_blank (ws_rows ?ws) 2"
    by (auto simp: rows trailing_blank_def all_none_def plain_cell_def less_Suc_eq numeral_3_eq_3)
  have t0: "\<not> trailing_blank (ws_rows ?ws) 0"
    by (auto simp: rows trailing_blank_def all_none_def plain_cell_def intro!: exI [of _ 1])
  have i0: "0 < length (ws_rows ?ws)" and i2: "2 < length (ws_rows ?ws)"
    by (simp_all add: rows)
  note a = rows_passed_over_only_while_trailing [OF e d' i0]
  note b = rows_passed_over_only_while_trailing [OF e d' i2]
  have f: "filter (\<lambda>c. \<not> cell_skipped ?env c) (ws_rows ?ws ! 0) = [plain_cell 1 1 VNone]"
    by (simp add: rows cell_skipped_def row_hidden_def leading_blank_sheet_def sheet_of_def)
  from a t0 f have a1: "map (\<lambda>c. (gc_column c, gc_row c, gc_value c)) (sd_rows d ! 0) = [(1, 1, VNone)]"
    by (simp add: plain_cell_def)
  from a have a2: "length (sd_rows d) = 3" "length (table_rows no_lineno d) = 3"
    by (simp_all add: rows)
  from b t2 have b1: "sd_rows d ! 2 = []" "table_rows no_lineno d ! 2 = ''<tr>'' @ [CHR 0x0A] @ ''</tr>''"
    by simp_all
  from a1 a2 b1 show ?thesis by (simp add: d)
qed

text \<open>
  The claim as stated (an all-empty row above the first non-empty row is absent from the
  table) fails: the first row of this sheet is all-empty and lies above the only non-empty
  row, and it is rendered with its cell; the trailing all-empty row is the one passed over.
\<close>

theorem leading_blank_row_is_emitted:
  "(case to_data leading_blank_sheet of Inl e \<Rightarrow> [] | Inr d \<Rightarrow> map (map gc_value) (sd_rows d))
     = [[VNone], [VStr ''x''], []]
   \<and> (case to_data leading_blank_sheet of Inl e \<Rightarrow> [] | Inr d \<Rightarrow> table_rows no_lineno d)
     = [''<tr>'' @ [CHR 0x0A] @ ''<td class='' @ dq @ ''wsid-1-cellst-2-0'' @ dq @ '' id='' @ dq
          @ ''A1'' @ dq @ '' style='' @ dq @ dq @ ''></td>'' @ [CHR 0x0A] @ ''</tr>'',
        ''<tr>'' @ [CHR 0x0A] @ ''<td class='' @ dq @ ''wsid-1-cellst-2-0'' @ dq @ '' id='' @ dq
          @ ''A2'' @ dq @ '' style='' @ dq @ dq @ ''>x</td>'' @ [CHR 0x0A] @ ''</tr>'',
        ''<tr>'' @ [CHR 0x0A] @ ''</tr>'']"
  by code_simp

lemma hidden_row_data_ok:
  "(case to_data hidden_row_sheet of Inl e \<Rightarrow> False | Inr d \<Rightarrow> True)"
  by code_simp

theorem hidden_row_witness:
  "(case to_data hidden_row_sheet of
      Inl e \<Rightarrow> False
    | Inr d \<Rightarrow>
        length (sd_rows d) = 2 \<and> length (table_rows no_lineno d) = 2
        \<and> sd_rows d ! 0 = [] \<and> table_rows no_lineno d ! 0 = ''<tr>'' @ [CHR 0x0A] @ ''</tr>'')"
proof -
  let ?ws = "hidden_row_sheet"
  let ?env = "\<lparr>env_ci = COLOR_INDEX, env_bs = BORDER_STYLES, env_format_cell = plain_format,
          env_wb = book_of ?ws, env_ws = ?ws,
          env_ws_id = 1, env_merged = [], env_excluded = {}\<rparr>"
  from hidden_row_data_ok obtain d where d: "to_data ?ws = Inr d"
    by (cases "to_data ?ws") auto
  have e: "make_env COLOR_INDEX BORDER_STYLES plain_format (book_of ?ws) ?ws = Inr ?env"
    using no_merge_env [of "ws_rows ?ws" "[1]"]
    by (simp add: to_env_def hidden_row_sheet_def sheet_of_def)
  have d': "worksheet_to_data COLOR_INDEX BORDER_STYLES plain_format (book_of ?ws) ?ws = Inr d"
    using d by (simp add: to_data_def)
  have rows: "ws_rows ?ws = [[plain_cell 1 1 (VStr ''x'')], [plain_cell 1 2 (VStr ''y'')]]"
    by (simp add: hidden_row_sheet_def sheet_of_def)
  have i0: "0 < length (ws_rows ?ws)" by (simp add: rows)
  have h: "\<forall>c \<in> set (ws_rows ?ws ! 0). row_hidden ?ws (cell_row c)"
    by (simp add: rows) (simp add: row_hidden_def hidden_row_sheet_def sheet_of_def plain_cell_def)
  from hidden_row_keeps_empty_row [OF e d' i0 h] show ?thesis
    by (simp add: d rows)
qed

text \<open>
  The claim as stated (no placeholder row is kept for a hidden row) fails: the hidden first
  row of this sheet is an empty row of the model and an empty \<open><tr>\<close> of the table.
\<close>

theorem hidden_row_leaves_placeholder:
  "(case to_data hidden_row_sheet of Inl e \<Rightarrow> [] | Inr d \<Rightarrow> map (map gc_value) (sd_rows d))
     = [[], [VStr ''y'']]
   \<and> (case to_data hidden_row_sheet of Inl e \<Rightarrow> [] | Inr d \<Rightarrow> take 1 (table_rows no_lineno d))
     = [''<tr>'' @ [CHR 0x0A] @ ''</tr>'']"
  by code_simp

section \<open>Rounding error of the float model\<close>

lemma rhe_error: "\<bar>of_int (rhe x) - x\<bar> \<le> 1 / 2"
proof -
  have "of_int \<lfloor>x\<rfloor> \<le> x" "x < of_int \<lfloor>x\<rfloor> + 1" by linarith+
  then show ?thesis by (auto simp: rhe_def Let_def)
qed

lemma rhe_of_int: "rhe (of_int k) = k"
  by (simp add: rhe_def)

lemma ilog2_zero: "ilog2 0 = 0"
  by (simp add: ilog2_def bitlen_eq_zero_iff)

lemma ilog2_lower:
  assumes "0 < z"
  shows "2 powi (ilog2 z) \<le> z"
proof (cases "1 \<le> z")
  case True
  let ?x = "\<lfloor>z\<rfloor>"
  from True have x: "0 < ?x" by linarith
  then have b: "1 \<le> bitlen ?x"
    using bitlen_eq_zero_iff [of ?x] bitlen_nonneg [of ?x] by linarith
  from bitlen_bounds [OF x] have "2 ^ nat (bitlen ?x - 1) \<le> ?x" by simp
  then have "(of_int (2 ^ nat (bitlen ?x - 1)) :: real) \<le> of_int ?x"
    by (simp only: of_int_le_iff)
  also have "\<dots> \<le> z" by linarith
  finally have "(2 :: real) ^ nat (bitlen ?x - 1) \<le> z" by simp
  moreover have "ilog2 z = bitlen ?x - 1" using True by (simp add: ilog2_def)
  moreover have "(2 :: real) powi (bitlen ?x - 1) = 2 ^ nat (bitlen ?x - 1)"
    using b by (simp add: power_int_nonneg_exp)
  ultimately show ?thesis by simp
next
  case False
  let ?n = "\<lceil>1 / z\<rceil>"
  let ?b = "bitlen (?n - 1)"
  from False assms have "1 < 1 / z" by simp
  then have n: "2 \<le> ?n" by linarith
  then have m: "0 < ?n - 1" by simp
  from bitlen_bounds [OF m] have "?n - 1 < 2 ^ nat ?b" by simp
  then have "?n \<le> 2 ^ nat ?b" by simp
  then have "(of_int ?n :: real) \<le> of_int (2 ^ nat ?b)" by (simp only: of_int_le_iff)
  then have "(of_int ?n :: real) \<le> 2 ^ nat ?b" by simp
  moreover have "1 / z \<le> of_int ?n" by linarith
  ultimately have "1 / z \<le> 2 ^ nat ?b" by linarith
  with assms have "1 \<le> z * 2 ^ nat ?b"
    by (simp add: field_simps)
  then have "1 / 2 ^ nat ?b \<le> z"
    by (simp add: field_simps)
  moreover have "ilog2 z = - ?b" using False by (simp add: ilog2_def)
  moreover have "(2 :: real) powi (- ?b) = 1 / 2 ^ nat ?b"
    using bitlen_nonneg [of "?n - 1"]
    by (simp add: power_int_minus power_int_nonneg_exp field_simps)
  ultimately show ?thesis by simp
qed

lemma ilog2_less:
  assumes "0 < z" and "z < 2 powi k"
  shows "ilog2 z < k"
proof (rule ccontr)
  assume "\<not> ilog2 z < k"
  then have "k \<le> ilog2 z" by simp
  then have "(2 :: real) powi k \<le> 2 powi (ilog2 z)"
    by (rule power_int_increasing) simp
  with ilog2_lower [OF assms(1)] assms(2) show False by linarith
qed

lemma fl_pack_finite: "\<bar>y\<bar> < 2 powi 1024 \<Longrightarrow> fl_pack pos y = Fin y"
proof (cases "y = 0")
  case True
  then show ?thesis by (simp add: fl_pack_def ilog2_zero)
next
  case False
  assume "\<bar>y\<bar> < 2 powi 1024"
  with False have "ilog2 \<bar>y\<bar> < 1024" by (intro ilog2_less) auto
  then show ?thesis by (simp add: fl_pack_def)
qed

lemma fl_small:
  assumes "\<bar>z\<bar> < 512"
  shows "\<exists>y. fl z = Fin y \<and> \<bar>y - z\<bar> \<le> 1 / 2 ^ 45"
proof (cases "z = 0")
  case True
  then show ?thesis by (simp add: fl_def)
next
  case False
  let ?e = "max (ilog2 \<bar>z\<bar> - 52) (- 1074)"
  let ?p = "(2 :: real) powi ?e"
  let ?y = "of_int (rhe (z / ?p)) * ?p"
  have "\<bar>z\<bar> < 2 powi 9" using assms by simp
  with False have "ilog2 \<bar>z\<bar> < 9" by (intro ilog2_less) auto
  then have e: "?e \<le> - 44" by simp
  have p0: "0 < ?p" by simp
  have "?p \<le> 2 powi (- 44)" using e by (rule power_int_increasing) simp
  then have p: "?p \<le> 1 / 2 ^ 44" by (simp add: power_int_minus field_simps)
  have "\<bar>?y - z\<bar> = \<bar>of_int (rhe (z / ?p)) - z / ?p\<bar> * ?p"
  proof -
    have "?y - z = (of_int (rhe (z / ?p)) - z / ?p) * ?p"
      using p0 by (simp add: field_simps)
    then show ?thesis using p0 by (simp add: abs_mult)
  qed
  also have "\<dots> \<le> (1 / 2) * ?p"
    using rhe_error [of "z / ?p"] p0 by (intro mult_right_mono) auto
  also have "\<dots> \<le> (1 / 2) * (1 / 2 ^ 44)" using p by simp
  finally have err: "\<bar>?y - z\<bar> \<le> 1 / 2 ^ 45" by simp
  moreover have "(1 :: real) / 2 ^ 45 \<le> 1" by simp
  ultimately have "\<bar>?y\<bar> < 513" using assms by linarith
  moreover have "(513 :: real) \<le> 2 powi 10" by simp
  moreover have "(2 :: real) powi 10 \<le> 2 powi 1024" by (rule power_int_increasing) simp_all
  ultimately have "\<bar>?y\<bar> < 2 powi 1024" by linarith
  then have "fl_pack (0 < z) ?y = Fin ?y" by (rule fl_pack_finite)
  with False have "fl z = Fin ?y" by (simp add: fl_def fl_at_def)
  with err show ?thesis by blast
qed

lemma fl_of_int_exact:
  assumes "\<bar>k\<bar> < 2 ^ 53"
  shows "fl (of_int k) = Fin (of_int k)"
proof (cases "k = 0")
  case True
  then show ?thesis by (simp add: fl_def)
next
  case False
  let ?z = "of_int k :: real"
  let ?e = "max (ilog2 \<bar>?z\<bar> - 52) (- 1074)"
  have "\<bar>?z\<bar> < 2 ^ 53" using assms by (metis of_int_abs of_int_less_numeral_power_cancel_iff)
  then have "\<bar>?z\<bar> < 2 powi 53" by simp
  with False have il: "ilog2 \<bar>?z\<bar> < 53" by (intro ilog2_less) auto
  then have e: "?e \<le> 0" by simp
  define n where "n = nat (- ?e)"
  have en: "?e = - int n" using e by (simp add: n_def)
  have p: "(2 :: real) powi ?e = 1 / 2 ^ n"
    unfolding en by (simp add: power_int_minus field_simps)
  have "?z / (2 powi ?e) = of_int (k * 2 ^ n)"
    unfolding p by simp
  then have "rhe (?z / (2 powi ?e)) = k * 2 ^ n"
    by (simp only: rhe_of_int)
  then have y: "of_int (rhe (?z / (2 powi ?e))) * (2 powi ?e) = ?z"
    unfolding p by simp
  have "\<bar>?z\<bar> < 2 powi 1024"
  proof -
    have "(2 :: real) powi 53 \<le> 2 powi 1024" by (rule power_int_increasing) simp_all
    with \<open>\<bar>?z\<bar> < 2 powi 53\<close> show ?thesis by linarith
  qed
  then have "fl_pack (0 < ?z) ?z = Fin ?z" by (rule fl_pack_finite)
  with False y show ?thesis by (simp add: fl_def fl_at_def)
qed

lemma rhe_near:
  assumes "\<bar>x - of_int k\<bar> < 1 / 2"
  shows "rhe x = k"
proof (cases "of_int k \<le> x")
  case True
  with assms have "\<lfloor>x\<rfloor> = k" by linarith
  with assms True show ?thesis by (auto simp: rhe_def Let_def)
next
  case False
  with assms have f: "\<lfloor>x\<rfloor> = k - 1" by linarith
  with assms False show ?thesis by (auto simp: rhe_def Let_def)
qed


lemma fl_240: "fl 240 = Fin 240"
  using fl_of_int_exact [of 240] by simp


lemma tint_luminance_white:
  assumes "0 \<le> x" and "x \<le> 1"
  shows "tint_luminance (Fin x) 240 = Some 240"
proof -
  define eps :: real where "eps = 1 / 2 ^ 45"
  have eps: "0 < eps" "eps \<le> 1 / 1000" by (simp_all add: eps_def)
  from assms have "\<bar>1 + - x\<bar> < 512" by simp
  from fl_small [OF this] obtain u where u: "fl (1 + - x) = Fin u" "\<bar>u - (1 + - x)\<bar> \<le> eps"
    by (auto simp: eps_def)
  from u(2) assms eps have ub: "\<bar>u\<bar> \<le> 1 + eps" by linarith
  then have "\<bar>240 * u\<bar> < 512" using eps by (simp add: abs_mult) 
  from fl_small [OF this] obtain a where a: "fl (240 * u) = Fin a" "\<bar>a - 240 * u\<bar> \<le> eps"
    by (auto simp: eps_def)
  from a(2) ub eps have ab: "\<bar>a\<bar> \<le> 241" by (simp add: abs_le_iff)
  then have "\<bar>240 + - a\<bar> < 512" by linarith
  from fl_small [OF this] obtain c where c: "fl (240 + - a) = Fin c" "\<bar>c - (240 + - a)\<bar> \<le> eps"
    by (auto simp: eps_def)
  from c(2) eps have "\<bar>a + c\<bar> < 512" by linarith
  from fl_small [OF this] obtain d where d: "fl (a + c) = Fin d" "\<bar>d - (a + c)\<bar> \<le> eps"
    by (auto simp: eps_def)
  from d(2) c(2) eps have "\<bar>d - 240\<bar> < 1 / 2" by linarith
  then have "\<bar>d - of_int 240\<bar> < 1 / 2" by simp
  then have r: "rhe d = 240" by (rule rhe_near)
  have "\<not> x < 0" using assms by simp
  with u(1) a(1) c(1) d(1) r show ?thesis
    by (simp add: tint_luminance_def int_to_float_def finite_only_def fsub_def HLSMAX_def fl_240)
qed

section \<open>Malformed colours and missing theme data\<close>

lemma white_ms_hls: "rgb_to_ms_hls ''FFFFFF'' = (0, 240, 0)"
  by (simp add: fl_eval colour_eval)

lemma white_back: "do { c \<leftarrow> ms_hls_to_rgb 0 240 0; rgb_to_hex c } = Some ''FFFFFF''"
  by (simp add: fl_eval colour_eval)

lemma tint_rgb_white:
  assumes "0 \<le> x" and "x \<le> 1"
  shows "tint_rgb ''FFFFFF'' (Fin x) = ''FFFFFF''"
proof -
  have h: "list_all is_hex_char ''FFFFFF''" by (simp add: is_hex_char_def)
  show ?thesis
    unfolding tint_rgb_def
    using h white_back by (simp add: white_ms_hls tint_luminance_white [OF assms])
qed

lemma tint_rgb_not_hex: "\<not> list_all is_hex_char rgb \<Longrightarrow> tint_rgb rgb tint = ''FFFFFF''"
  by (simp add: tint_rgb_def)

lemma theme_missing_colors: "theme_missing wb \<Longrightarrow> get_theme_colors wb = Some [''FFFFFF'']"
  by (auto simp: theme_missing_def get_theme_colors_def
      split: option.splits theme_source.splits list.splits)

lemma default_palette_any_index:
  assumes "get_theme_colors wb = Some [c]"
  shows "theme_and_tint_to_rgb wb t tint = tint_rgb c tint"
proof (cases "py_index [c] t")
  case None
  with assms show ?thesis by (simp add: theme_and_tint_to_rgb_def py_index_def)
next
  case (Some r)
  then have "r = c" by (auto simp: py_index_def split: if_splits)
  with Some assms show ?thesis by (simp add: theme_and_tint_to_rgb_def)
qed

text \<open>
  Claim C5, as the code has it. The resolver never raises. It returns \<open>'FFFFFF'\<close> when the
  theme cannot be parsed, and, for every tint, when the palette entry it selects (the entry
  at the theme index, or the first entry when the index is beyond the palette) contains a
  character that is not a hexadecimal digit. When the theme data is missing the palette is
  \<open>['FFFFFF']\<close> and this white is tinted like any other colour: the result is \<open>'FFFFFF'\<close>
  for every tint from 0 to 1.
\<close>

theorem malformed_colour_resolves_to_white:
  "(get_theme_colors wb = None \<longrightarrow> theme_and_tint_to_rgb wb t tint = ''FFFFFF'')
   \<and> (\<not> list_all is_hex_char rgb \<longrightarrow> tint_rgb rgb tint = ''FFFFFF'')
   \<and> (\<forall>colors. get_theme_colors wb = Some colors
         \<and> (py_index colors t = Some rgb \<or> py_index colors t = None \<and> py_index colors 0 = Some rgb)
         \<and> \<not> list_all is_hex_char rgb
         \<longrightarrow> theme_and_tint_to_rgb wb t tint = ''FFFFFF'')
   \<and> (theme_missing wb \<and> 0 \<le> x \<and> x \<le> 1 \<longrightarrow> theme_and_tint_to_rgb wb t (Fin x) = ''FFFFFF'')"
proof (intro conjI impI allI)
  assume "get_theme_colors wb = None"
  then show "theme_and_tint_to_rgb wb t tint = ''FFFFFF''"
    by (simp add: theme_and_tint_to_rgb_def)
next
  assume "\<not> list_all is_hex_char rgb"
  then show "tint_rgb rgb tint = ''FFFFFF''" by (rule tint_rgb_not_hex)
next
  fix colors
  assume a: "get_theme_colors wb = Some colors
         \<and> (py_index colors t = Some rgb \<or> py_index colors t = None \<and> py_index colors 0 = Some rgb)
         \<and> \<not> list_all is_hex_char rgb"
  then have "theme_and_tint_to_rgb wb t tint = tint_rgb rgb tint"
    by (auto simp: theme_and_tint_to_rgb_def)
  with a show "theme_and_tint_to_rgb wb t tint = ''FFFFFF''"
    by (simp add: tint_rgb_not_hex)
next
  assume a: "theme_missing wb \<and> 0 \<le> x \<and> x \<le> 1"
  then have "get_theme_colors wb = Some [''FFFFFF'']" by (simp add: theme_missing_colors)
  then have "theme_and_tint_to_rgb wb t (Fin x) = tint_rgb ''FFFFFF'' (Fin x)"
    by (rule default_palette_any_index)
  with a show "theme_and_tint_to_rgb wb t (Fin x) = ''FFFFFF''"
    by (simp add: tint_rgb_white)
qed

theorem malformed_colour_witness:
  "theme_missing (no_theme_wb :: unit workbook)
   \<and> theme_and_tint_to_rgb (no_theme_wb :: unit workbook) 3 (Fin (1 / 2)) = ''FFFFFF''
   \<and> \<not> list_all is_hex_char ''12345G''
   \<and> get_theme_colors (lt1_only_wb ''12345G'' :: unit workbook)
        = Some (''12345G'' # replicate 9 ''FFFFFF'')
   \<and> theme_and_tint_to_rgb (lt1_only_wb ''12345G'' :: unit workbook) 0 (Fin (- 1 / 2)) = ''FFFFFF''"
proof -
  have m: "theme_missing (no_theme_wb :: unit workbook)"
    by (simp add: theme_missing_def no_theme_wb_def)
  have x: "(0 :: real) \<le> 1 / 2" "(1 :: real) / 2 \<le> 1" by simp_all
  note r1 = malformed_colour_resolves_to_white
    [of "no_theme_wb :: unit workbook" 3 "Fin (1 / 2)" "''''" "1 / 2"]
  from r1 m x have a: "theme_and_tint_to_rgb (no_theme_wb :: unit workbook) 3 (Fin (1 / 2)) = ''FFFFFF''"
    by blast
  have h: "\<not> list_all is_hex_char ''12345G''" by (simp add: is_hex_char_def)
  have c: "get_theme_colors (lt1_only_wb ''12345G'' :: unit workbook)
        = Some (''12345G'' # replicate 9 ''FFFFFF'')"
    by (simp add: get_theme_colors_def find_el_def findall_def qname_def
      slot_colors_def theme_slots_def dict_get_def srgb_slot_def sys_slot_def wb_of_scheme_def
      lt1_only_wb_def numeral_eq_Suc)
  have p: "py_index (''12345G'' # replicate 9 ''FFFFFF'') 0 = Some ''12345G''"
    by (simp add: py_index_def)
  note r2 = malformed_colour_resolves_to_white
    [of "lt1_only_wb ''12345G'' :: unit workbook" 0 "Fin (- 1 / 2)" "''12345G''" 0]
  from r2 c p h
  have b: "theme_and_tint_to_rgb (lt1_only_wb ''12345G'' :: unit workbook) 0 (Fin (- 1 / 2)) = ''FFFFFF''"
    by blast
  show ?thesis by (rule conjI [OF m conjI [OF a conjI [OF h conjI [OF c b]]]])
qed

text \<open>
  With missing theme data and a negative tint the result is not white: the default
  \<open>'FFFFFF'\<close> is darkened, to \<open>'808080'\<close> for the tint \<open>-0.5\<close>.
\<close>

theorem missing_theme_negative_tint_is_grey:
  "theme_missing (no_theme_wb :: unit workbook)
   \<and> theme_and_tint_to_rgb (no_theme_wb :: unit workbook) 0 (Fin (- 1 / 2)) = ''808080''"
proof -
  have m: "theme_missing (no_theme_wb :: unit workbook)"
    by (simp add: theme_missing_def no_theme_wb_def)
  then have "get_theme_colors (no_theme_wb :: unit workbook) = Some [''FFFFFF'']"
    by (rule theme_missing_colors)
  then have "theme_and_tint_to_rgb (no_theme_wb :: unit workbook) 0 (Fin (- 1 / 2))
      = tint_rgb ''FFFFFF'' (Fin (- 1 / 2))"
    by (rule default_palette_any_index)
  with m tint_rgb_white_darker show ?thesis by simp
qed

section \<open>Tint zero\<close>















end
